theory Spec2Isabelle
  imports Complex_Main "HOL-Library.Sublist" "HOL-Library.AList"
begin

section \<open>Python values, exceptions and the operations the wrappers use on them\<close>

text \<open>
  The instrumentation inspects requests and responses of arbitrary shape, so the values
  are modelled as a small universe of Python objects: \<open>VObj c fs\<close> is an instance of
  class \<open>c\<close> whose \<open>__dict__\<close> is \<open>fs\<close>; a dict keeps its items in insertion order.
  Every exception of the model is an instance of a subclass of \<open>Exception\<close>
  (what \<open>except Exception\<close> catches); \<open>cls\<close> is \<open>e.__class__.__name__\<close>.
\<close>

datatype val =
    VNone
  | VBool bool
  | VInt int
  | VFloat real
  | VStr string
  | VList "val list"
  | VDict "(string \<times> val) list"
  | VObj string "(string \<times> val) list"

type_synonym dict = "(string \<times> val) list"

datatype exn = Exn (cls: string) (msg: string)

fun truthy :: "val \<Rightarrow> bool" where
  "truthy VNone = False"
| "truthy (VBool b) = b"
| "truthy (VInt i) = (i \<noteq> 0)"
| "truthy (VFloat r) = (r \<noteq> 0)"
| "truthy (VStr s) = (s \<noteq> [])"
| "truthy (VList xs) = (xs \<noteq> [])"
| "truthy (VDict d) = (d \<noteq> [])"
| "truthy (VObj c fs) = True"

text \<open>\<open>d.get(k)\<close> on a dict: \<open>None\<close> for a missing key.\<close>

definition dict_get :: "dict \<Rightarrow> string \<Rightarrow> val" where
  "dict_get d k = (case map_of d k of None \<Rightarrow> VNone | Some v \<Rightarrow> v)"

text \<open>\<open>x.get(k)\<close> on any value: only a dict has the method.\<close>

fun py_get :: "val \<Rightarrow> string \<Rightarrow> exn + val" where
  "py_get (VDict d) k = Inr (dict_get d k)"
| "py_get v k = Inl (Exn ''AttributeError'' ''get'')"

text \<open>Attribute access \<open>x.a\<close>.\<close>

fun py_getattr :: "val \<Rightarrow> string \<Rightarrow> exn + val" where
  "py_getattr (VObj c fs) a =
     (case map_of fs a of Some v \<Rightarrow> Inr v | None \<Rightarrow> Inl (Exn ''AttributeError'' a))"
| "py_getattr v a = Inl (Exn ''AttributeError'' a)"

text \<open>\<open>if not isinstance(response, dict): response = response.__dict__\<close>.\<close>

fun as_dict :: "val \<Rightarrow> exn + dict" where
  "as_dict (VDict d) = Inr d"
| "as_dict (VObj c fs) = Inr fs"
| "as_dict v = Inl (Exn ''AttributeError'' ''__dict__'')"

text \<open>The items a \<open>for\<close> loop (or \<open>enumerate\<close>) visits.\<close>

fun py_iter :: "val \<Rightarrow> exn + val list" where
  "py_iter (VList xs) = Inr xs"
| "py_iter (VStr s) = Inr (map (\<lambda>c. VStr [c]) s)"
| "py_iter (VDict d) = Inr (map (\<lambda>kv. VStr (fst kv)) d)"
| "py_iter v = Inl (Exn ''TypeError'' ''not iterable'')"

text \<open>\<open>x[0]\<close>.\<close>

fun py_first :: "val \<Rightarrow> exn + val" where
  "py_first (VList xs) = (case xs of [] \<Rightarrow> Inl (Exn ''IndexError'' ''0'') | x # _ \<Rightarrow> Inr x)"
| "py_first (VStr s) = (case s of [] \<Rightarrow> Inl (Exn ''IndexError'' ''0'') | c # _ \<Rightarrow> Inr (VStr [c]))"
| "py_first (VDict d) = Inl (Exn ''KeyError'' ''0'')"
| "py_first v = Inl (Exn ''TypeError'' ''not subscriptable'')"

text \<open>\<open>a + b\<close>: numbers (a bool counts as an int), strings and lists.\<close>

fun as_num :: "val \<Rightarrow> (int + real) option" where
  "as_num (VBool b) = Some (Inl (if b then 1 else 0))"
| "as_num (VInt i) = Some (Inl i)"
| "as_num (VFloat r) = Some (Inr r)"
| "as_num v = None"

fun to_real :: "int + real \<Rightarrow> real" where
  "to_real (Inl i) = of_int i"
| "to_real (Inr r) = r"

fun py_add :: "val \<Rightarrow> val \<Rightarrow> exn + val" where
  "py_add (VStr s) (VStr t) = Inr (VStr (s @ t))"
| "py_add (VList xs) (VList ys) = Inr (VList (xs @ ys))"
| "py_add a b =
     (case (as_num a, as_num b) of
        (Some (Inl x), Some (Inl y)) \<Rightarrow> Inr (VInt (x + y))
      | (Some x, Some y) \<Rightarrow> Inr (VFloat (to_real x + to_real y))
      | _ \<Rightarrow> Inl (Exn ''TypeError'' ''unsupported operand type(s) for +''))"

text \<open>\<open>sum(xs)\<close>: starts from the int 0 and adds from the left.\<close>

fun py_sum_from :: "val \<Rightarrow> val list \<Rightarrow> exn + val" where
  "py_sum_from acc [] = Inr acc"
| "py_sum_from acc (x # xs) =
     (case py_add acc x of Inl e \<Rightarrow> Inl e | Inr acc' \<Rightarrow> py_sum_from acc' xs)"

definition py_sum :: "val list \<Rightarrow> exn + val" where
  "py_sum xs = py_sum_from (VInt 0) xs"

text \<open>\<open>x.__class__.__name__\<close>.\<close>

fun class_name :: "val \<Rightarrow> string" where
  "class_name VNone = ''NoneType''"
| "class_name (VBool b) = ''bool''"
| "class_name (VInt i) = ''int''"
| "class_name (VFloat r) = ''float''"
| "class_name (VStr s) = ''str''"
| "class_name (VList xs) = ''list''"
| "class_name (VDict d) = ''dict''"
| "class_name (VObj c fs) = c"

text \<open>The decimal digits an f-string writes for a loop index.\<close>

function show_nat :: "nat \<Rightarrow> string" where
  "show_nat n =
     (if n < 10 then [char_of (48 + n)] else show_nat (n div 10) @ [char_of (48 + n mod 10)])"
  by pat_completeness auto
termination
  by (relation "measure id") auto

declare show_nat.simps [simp del]

section \<open>The collaborators: spans, metric instruments, clock, environment\<close>

datatype status_code = StatusUnset | StatusOk | StatusError

text \<open>
  A span of the tracing backend. \<open>sampled\<close> says whether the tracer handed out a
  recording span; \<open>ends\<close> counts the calls of \<open>end()\<close>.
\<close>

record span =
  span_name :: val
  attributes :: "string \<Rightarrow> val option"
  status :: status_code
  sampled :: bool
  ends :: nat

definition is_recording :: "span \<Rightarrow> bool" where
  "is_recording s = (sampled s \<and> ends s = 0)"

text \<open>\<open>span.set_attribute(key, value)\<close> of the backend: stored while the span records.\<close>

definition span_set_attribute :: "span \<Rightarrow> string \<Rightarrow> val \<Rightarrow> span" where
  "span_set_attribute s k v =
     (if is_recording s then s\<lparr>attributes := (attributes s)(k \<mapsto> v)\<rparr> else s)"

definition span_set_status :: "span \<Rightarrow> status_code \<Rightarrow> span" where
  "span_set_status s c = (if is_recording s then s\<lparr>status := c\<rparr> else s)"

definition span_end :: "span \<Rightarrow> span" where
  "span_end s = s\<lparr>ends := Suc (ends s)\<rparr>"

datatype instrument_kind = Counter | Histogram

record instrument =
  iname :: string
  iunit :: string
  description :: string
  ikind :: instrument_kind

record point =
  on_instrument :: string
  pvalue :: val
  pattrs :: dict

text \<open>
  What the process observes of the outside: a reading of \<open>time.time()\<close> and an
  invocation of the wrapped callable with its positional and keyword arguments.
\<close>

datatype event = Time real | Invoke "val list" dict

text \<open>
  The state the wrappers act on. A span is local to the call that starts it and is
  mutated in place by the source; the model threads it as a value and files it under
  \<open>spans\<close> at the point where control leaves the wrapper.
\<close>

record world =
  spans :: "span list"
  instruments :: "instrument list"
  points :: "point list"
  warnings :: "string list"
  trace :: "event list"
  reads :: nat

text \<open>
  What the wrappers read from their surroundings.
  \<^item> \<open>suppress\<close>: \<open>context_api.get_value(_SUPPRESS_INSTRUMENTATION_KEY)\<close> is truthy;
  \<^item> \<open>metrics_var\<close>: \<open>os.getenv("TRACELOOP_METRICS_ENABLED")\<close>;
  \<^item> \<open>send_prompts\<close>: \<open>should_send_prompts()\<close>;
  \<^item> \<open>tracer_samples\<close>: the tracer hands out recording spans;
  \<^item> \<open>clock\<close>: the successive readings of \<open>time.time()\<close>;
  \<^item> \<open>count_tokens\<close>: the client's token counting, which may raise;
  \<^item> \<open>writable\<close>: the values \<open>set_span_attribute\<close> of the package's \<open>utils\<close>
    module (not among the sources) passes on to the span;
  \<^item> \<open>json_dumps\<close>, \<open>py_str\<close>: \<open>json.dumps\<close> and \<open>str\<close> of the standard library.
\<close>

record env =
  suppress :: bool
  metrics_var :: "string option"
  send_prompts :: bool
  tracer_samples :: bool
  clock :: "nat \<Rightarrow> real"
  count_tokens :: "val \<Rightarrow> exn + val"
  writable :: "val \<Rightarrow> bool"
  json_dumps :: "val \<Rightarrow> string"
  py_str :: "val \<Rightarrow> string"

definition time_time :: "env \<Rightarrow> world \<Rightarrow> real \<times> world" where
  "time_time en w =
     (clock en (reads w),
      w\<lparr>trace := trace w @ [Time (clock en (reads w))], reads := Suc (reads w)\<rparr>)"

definition invoke :: "(val list \<Rightarrow> dict \<Rightarrow> exn + val) \<Rightarrow> val list \<Rightarrow> dict \<Rightarrow> world
    \<Rightarrow> (exn + val) \<times> world" where
  "invoke wrapped args kwargs w = (wrapped args kwargs, w\<lparr>trace := trace w @ [Invoke args kwargs]\<rparr>)"

definition start_span :: "env \<Rightarrow> val \<Rightarrow> dict \<Rightarrow> span" where
  "start_span en nm attrs =
     \<lparr>span_name = nm,
      attributes = (if tracer_samples en then map_of attrs else Map.empty),
      status = StatusUnset, sampled = tracer_samples en, ends = 0\<rparr>"

definition file_span :: "span \<Rightarrow> world \<Rightarrow> world" where
  "file_span s w = w\<lparr>spans := spans w @ [s]\<rparr>"

definition log_warning :: "string \<Rightarrow> world \<Rightarrow> world" where
  "log_warning m w = w\<lparr>warnings := warnings w @ [m]\<rparr>"

definition create_instrument :: "instrument \<Rightarrow> world \<Rightarrow> world" where
  "create_instrument i w = w\<lparr>instruments := instruments w @ [i]\<rparr>"

text \<open>\<open>counter.add(v, attributes)\<close> and \<open>histogram.record(v, attributes)\<close>.\<close>

definition record_point :: "instrument \<Rightarrow> val \<Rightarrow> dict \<Rightarrow> world \<Rightarrow> world" where
  "record_point i v attrs w =
     w\<lparr>points := points w @ [\<lparr>on_instrument = iname i, pvalue = v, pattrs = attrs\<rparr>]\<rparr>"

section \<open>Attribute extraction (anthropic package)\<close>

text \<open>
  Modelled from the spec: the \<open>SpanAttributes\<close> and \<open>LLMRequestTypeValues\<close> constants of
  the semantic-conventions package, which is not among the sources. The key names are the
  emitted span attribute keys the specification lists.
\<close>

abbreviation LLM_VENDOR :: string where "LLM_VENDOR \<equiv> ''llm.vendor''"
abbreviation LLM_REQUEST_TYPE :: string where "LLM_REQUEST_TYPE \<equiv> ''llm.request.type''"
abbreviation LLM_REQUEST_MODEL :: string where "LLM_REQUEST_MODEL \<equiv> ''llm.request.model''"
abbreviation LLM_REQUEST_MAX_TOKENS :: string where "LLM_REQUEST_MAX_TOKENS \<equiv> ''llm.request.max_tokens''"
abbreviation LLM_TEMPERATURE :: string where "LLM_TEMPERATURE \<equiv> ''llm.temperature''"
abbreviation LLM_TOP_P :: string where "LLM_TOP_P \<equiv> ''llm.top_p''"
abbreviation LLM_FREQUENCY_PENALTY :: string where "LLM_FREQUENCY_PENALTY \<equiv> ''llm.frequency_penalty''"
abbreviation LLM_PRESENCE_PENALTY :: string where "LLM_PRESENCE_PENALTY \<equiv> ''llm.presence_penalty''"
abbreviation LLM_IS_STREAMING :: string where "LLM_IS_STREAMING \<equiv> ''llm.is_streaming''"
abbreviation LLM_PROMPTS :: string where "LLM_PROMPTS \<equiv> ''llm.prompts''"
abbreviation LLM_COMPLETIONS :: string where "LLM_COMPLETIONS \<equiv> ''llm.completions''"
abbreviation LLM_RESPONSE_MODEL :: string where "LLM_RESPONSE_MODEL \<equiv> ''llm.response.model''"
abbreviation LLM_USAGE_PROMPT_TOKENS :: string where "LLM_USAGE_PROMPT_TOKENS \<equiv> ''llm.usage.prompt_tokens''"
abbreviation LLM_USAGE_COMPLETION_TOKENS :: string where "LLM_USAGE_COMPLETION_TOKENS \<equiv> ''llm.usage.completion_tokens''"
abbreviation LLM_USAGE_TOTAL_TOKENS :: string where "LLM_USAGE_TOTAL_TOKENS \<equiv> ''llm.usage.total_tokens''"
abbreviation REQUEST_TYPE_COMPLETION :: string where "REQUEST_TYPE_COMPLETION \<equiv> ''completion''"
abbreviation REQUEST_TYPE_CHAT :: string where "REQUEST_TYPE_CHAT \<equiv> ''chat''"

text \<open>
  \<open>set_span_attribute(span, name, value)\<close> of the package's \<open>utils\<close> module, which is
  not among the sources: it forwards to \<open>span.set_attribute\<close> the values it accepts
  (the parameter \<open>writable\<close>) and drops the others.
\<close>

definition set_span_attribute :: "env \<Rightarrow> span \<Rightarrow> string \<Rightarrow> val \<Rightarrow> span" where
  "set_span_attribute en s k v = (if writable en v then span_set_attribute s k v else s)"

text \<open>The loop of \<open>_dump_content\<close> over the content parts.\<close>

fun dump_items :: "env \<Rightarrow> val list \<Rightarrow> val list \<Rightarrow> exn + val list" where
  "dump_items en acc [] = Inr acc"
| "dump_items en acc (item # items) =
     (case py_get item ''type'' of
        Inl e \<Rightarrow> Inl e
      | Inr ty \<Rightarrow>
          if ty = VStr ''text'' then
            (case py_get item ''text'' of
               Inl e \<Rightarrow> Inl e
             | Inr t \<Rightarrow>
                 dump_items en (acc @ [VDict [(''type'', VStr ''text''), (''text'', t)]]) items)
          else if ty = VStr ''image'' then
            (case py_get item ''source'' of
               Inl e \<Rightarrow> Inl e
             | Inr src \<Rightarrow>
                (case py_get src ''type'' of
                   Inl e \<Rightarrow> Inl e
                 | Inr sty \<Rightarrow>
                    (case py_get src ''media_type'' of
                       Inl e \<Rightarrow> Inl e
                     | Inr mt \<Rightarrow>
                        (case py_get src ''data'' of
                           Inl e \<Rightarrow> Inl e
                         | Inr d \<Rightarrow>
                             dump_items en
                               (acc @ [VDict [(''type'', VStr ''image''),
                                  (''source'', VDict [(''type'', sty), (''media_type'', mt),
                                     (''data'', VStr (py_str en d))])]])
                               items))))
          else dump_items en acc items)"

definition dump_content :: "env \<Rightarrow> val \<Rightarrow> exn + val" where
  "dump_content en content =
     (case content of
        VStr s \<Rightarrow> Inr (VStr s)
      | _ \<Rightarrow>
         (case py_iter content of
            Inl e \<Rightarrow> Inl e
          | Inr items \<Rightarrow>
             (case dump_items en [] items of
                Inl e \<Rightarrow> Inl e
              | Inr js \<Rightarrow> Inr (VStr (json_dumps en (VList js))))))"

definition prompt_key :: "nat \<Rightarrow> string" where
  "prompt_key i = LLM_PROMPTS @ ''.'' @ show_nat i @ ''.user''"

definition completion_key :: "nat \<Rightarrow> string" where
  "completion_key i = LLM_COMPLETIONS @ ''.'' @ show_nat i @ ''.content''"

text \<open>
  A procedure that may raise after some of its writes returns the exception (if any)
  together with the span as it stands at that point.
\<close>

fun set_prompts_loop :: "env \<Rightarrow> span \<Rightarrow> nat \<Rightarrow> val list \<Rightarrow> exn option \<times> span" where
  "set_prompts_loop en sp i [] = (None, sp)"
| "set_prompts_loop en sp i (message # rest) =
     (case py_get message ''content'' of
        Inl e \<Rightarrow> (Some e, sp)
      | Inr c \<Rightarrow>
         (case dump_content en c of
            Inl e \<Rightarrow> (Some e, sp)
          | Inr v \<Rightarrow> set_prompts_loop en (set_span_attribute en sp (prompt_key i) v) (Suc i) rest))"

definition set_input_attributes :: "env \<Rightarrow> span \<Rightarrow> dict \<Rightarrow> exn option \<times> span" where
  "set_input_attributes en span0 kwargs =
     (let s1 = set_span_attribute en span0 LLM_REQUEST_MODEL (dict_get kwargs ''model'');
          s2 = set_span_attribute en s1 LLM_REQUEST_MAX_TOKENS (dict_get kwargs ''max_tokens_to_sample'');
          s3 = set_span_attribute en s2 LLM_TEMPERATURE (dict_get kwargs ''temperature'');
          s4 = set_span_attribute en s3 LLM_TOP_P (dict_get kwargs ''top_p'');
          s5 = set_span_attribute en s4 LLM_FREQUENCY_PENALTY (dict_get kwargs ''frequency_penalty'');
          s6 = set_span_attribute en s5 LLM_PRESENCE_PENALTY (dict_get kwargs ''presence_penalty'');
          s7 = set_span_attribute en s6 LLM_IS_STREAMING (dict_get kwargs ''stream'')
      in if send_prompts en then
           (if dict_get kwargs ''prompt'' \<noteq> VNone then
              (None, set_span_attribute en s7 ''llm.prompts.0.user'' (dict_get kwargs ''prompt''))
            else if dict_get kwargs ''messages'' \<noteq> VNone then
              (case py_iter (dict_get kwargs ''messages'') of
                 Inl e \<Rightarrow> (Some e, s7)
               | Inr ms \<Rightarrow> set_prompts_loop en s7 0 ms)
            else (None, s7))
         else (None, s7))"

fun set_completions_loop :: "env \<Rightarrow> span \<Rightarrow> nat \<Rightarrow> val list \<Rightarrow> exn option \<times> span" where
  "set_completions_loop en sp i [] = (None, sp)"
| "set_completions_loop en sp i (content # rest) =
     (case py_getattr content ''text'' of
        Inl e \<Rightarrow> (Some e, sp)
      | Inr t \<Rightarrow> set_completions_loop en (set_span_attribute en sp (completion_key i) t) (Suc i) rest)"

definition set_span_completions :: "env \<Rightarrow> span \<Rightarrow> dict \<Rightarrow> exn option \<times> span" where
  "set_span_completions en span0 response =
     (let s1 = set_span_attribute en span0 ''llm.completions.0.finish_reason''
                 (dict_get response ''stop_reason'')
      in if truthy (dict_get response ''completion'') then
           (None, set_span_attribute en s1 ''llm.completions.0.content'' (dict_get response ''completion''))
         else if truthy (dict_get response ''content'') then
           (case py_iter (dict_get response ''content'') of
              Inl e \<Rightarrow> (Some e, s1)
            | Inr cs \<Rightarrow> set_completions_loop en s1 0 cs)
         else (None, s1))"

section \<open>Token usage\<close>

text \<open>The list comprehension over the request's messages.\<close>

fun count_messages :: "env \<Rightarrow> val list \<Rightarrow> exn + val list" where
  "count_messages en [] = Inr []"
| "count_messages en (m # ms) =
     (case py_get m ''content'' of
        Inl e \<Rightarrow> Inl e
      | Inr c \<Rightarrow>
         (case count_tokens en c of
            Inl e \<Rightarrow> Inl e
          | Inr n \<Rightarrow>
             (case count_messages en ms of
                Inl e \<Rightarrow> Inl e
              | Inr ns \<Rightarrow> Inr (n # ns))))"

text \<open>\<open>prompt_tokens\<close> as both \<open>_set_token_usage\<close> and \<open>_set_token_usage_a\<close> compute it.\<close>

definition count_prompt :: "env \<Rightarrow> dict \<Rightarrow> exn + val" where
  "count_prompt en request =
     (if truthy (dict_get request ''prompt'') then count_tokens en (dict_get request ''prompt'')
      else if truthy (dict_get request ''messages'') then
        (case py_iter (dict_get request ''messages'') of
           Inl e \<Rightarrow> Inl e
         | Inr ms \<Rightarrow>
            (case count_messages en ms of
               Inl e \<Rightarrow> Inl e
             | Inr ns \<Rightarrow> py_sum ns))
      else Inr (VInt 0))"

text \<open>\<open>completion_tokens\<close> likewise: the free text, or else the first content item.\<close>

definition count_completion :: "env \<Rightarrow> dict \<Rightarrow> exn + val" where
  "count_completion en response =
     (if truthy (dict_get response ''completion'') then
        count_tokens en (dict_get response ''completion'')
      else if truthy (dict_get response ''content'') then
        (case py_first (dict_get response ''content'') of
           Inl e \<Rightarrow> Inl e
         | Inr c0 \<Rightarrow>
            (case py_getattr c0 ''text'' of
               Inl e \<Rightarrow> Inl e
             | Inr t \<Rightarrow> count_tokens en t))
      else Inr (VInt 0))"

text \<open>\<open>type(n) is int and n >= 0\<close>.\<close>

fun is_nonneg_int :: "val \<Rightarrow> bool" where
  "is_nonneg_int (VInt i) = (0 \<le> i)"
| "is_nonneg_int v = False"

definition add_tokens :: "instrument option \<Rightarrow> val \<Rightarrow> dict \<Rightarrow> string \<Rightarrow> world \<Rightarrow> world" where
  "add_tokens token_counter n metric_attributes ty w =
     (case token_counter of
        Some c \<Rightarrow>
          if is_nonneg_int n then
            record_point c n (AList.update ''llm.usage.token_type'' (VStr ty) metric_attributes) w
          else w
      | None \<Rightarrow> w)"

definition count_choices :: "dict \<Rightarrow> nat" where
  "count_choices response =
     (case dict_get response ''content'' of
        VList xs \<Rightarrow> length xs
      | _ \<Rightarrow> if truthy (dict_get response ''completion'') then 1 else 0)"

definition set_usage_attributes :: "env \<Rightarrow> span \<Rightarrow> val \<Rightarrow> val \<Rightarrow> val \<Rightarrow> span" where
  "set_usage_attributes en s p c t =
     set_span_attribute en
       (set_span_attribute en (set_span_attribute en s LLM_USAGE_PROMPT_TOKENS p)
          LLM_USAGE_COMPLETION_TOKENS c)
       LLM_USAGE_TOTAL_TOKENS t"

definition set_token_usage_a :: "env \<Rightarrow> span \<Rightarrow> dict \<Rightarrow> val \<Rightarrow> exn option \<times> span" where
  "set_token_usage_a en s request response0 =
     (case as_dict response0 of
        Inl e \<Rightarrow> (Some e, s)
      | Inr response \<Rightarrow>
         (case count_prompt en request of
            Inl e \<Rightarrow> (Some e, s)
          | Inr prompt_tokens \<Rightarrow>
             (case count_completion en response of
                Inl e \<Rightarrow> (Some e, s)
              | Inr completion_tokens \<Rightarrow>
                 (case py_add prompt_tokens completion_tokens of
                    Inl e \<Rightarrow> (Some e, s)
                  | Inr total_tokens \<Rightarrow>
                      (None, set_usage_attributes en s prompt_tokens completion_tokens total_tokens)))))"

definition set_token_usage :: "env \<Rightarrow> span \<Rightarrow> dict \<Rightarrow> val \<Rightarrow> dict \<Rightarrow> instrument option
    \<Rightarrow> instrument option \<Rightarrow> world \<Rightarrow> exn option \<times> span \<times> world" where
  "set_token_usage en s request response0 metric_attributes token_counter choice_counter w =
     (case as_dict response0 of
        Inl e \<Rightarrow> (Some e, s, w)
      | Inr response \<Rightarrow>
         (case count_prompt en request of
            Inl e \<Rightarrow> (Some e, s, w)
          | Inr prompt_tokens \<Rightarrow>
             (let w1 = add_tokens token_counter prompt_tokens metric_attributes ''prompt'' w
              in case count_completion en response of
                   Inl e \<Rightarrow> (Some e, s, w1)
                 | Inr completion_tokens \<Rightarrow>
                    (let w2 = add_tokens token_counter completion_tokens metric_attributes
                                ''completion'' w1
                     in case py_add prompt_tokens completion_tokens of
                          Inl e \<Rightarrow> (Some e, s, w2)
                        | Inr total_tokens \<Rightarrow>
                           (let choices = count_choices response;
                                w3 = (case choice_counter of
                                        Some c \<Rightarrow>
                                          if choices > 0 then
                                            record_point c (VInt (int choices))
                                              (AList.update ''llm.response.stop_reason''
                                                 (dict_get response ''stop_reason'') metric_attributes) w2
                                          else w2
                                      | None \<Rightarrow> w2)
                            in (None,
                                set_usage_attributes en s prompt_tokens completion_tokens total_tokens,
                                w3))))))"

text \<open>Lines 251 to 262 of \<open>_set_response_attributes\<close>: the usage sub-structure.\<close>

definition set_usage_from_response :: "env \<Rightarrow> span \<Rightarrow> dict \<Rightarrow> exn option \<times> span" where
  "set_usage_from_response en s1 response =
     (if truthy (dict_get response ''usage'') then
        (case py_getattr (dict_get response ''usage'') ''input_tokens'' of
           Inl e \<Rightarrow> (Some e, s1)
         | Inr prompt_tokens \<Rightarrow>
            (case py_getattr (dict_get response ''usage'') ''output_tokens'' of
               Inl e \<Rightarrow> (Some e, s1)
             | Inr completion_tokens \<Rightarrow>
                (let s2 = set_span_attribute en s1 LLM_USAGE_PROMPT_TOKENS prompt_tokens;
                     s3 = set_span_attribute en s2 LLM_USAGE_COMPLETION_TOKENS completion_tokens
                 in case py_add prompt_tokens completion_tokens of
                      Inl e \<Rightarrow> (Some e, s3)
                    | Inr total_tokens \<Rightarrow>
                        (None, set_span_attribute en s3 LLM_USAGE_TOTAL_TOKENS total_tokens))))
      else (None, s1))"

definition set_response_attributes :: "env \<Rightarrow> span \<Rightarrow> val \<Rightarrow> exn option \<times> span" where
  "set_response_attributes en span0 response0 =
     (case as_dict response0 of
        Inl e \<Rightarrow> (Some e, span0)
      | Inr response \<Rightarrow>
         (case set_usage_from_response en
                 (set_span_attribute en span0 LLM_RESPONSE_MODEL (dict_get response ''model''))
                 response of
            (Some e, s) \<Rightarrow> (Some e, s)
          | (None, s) \<Rightarrow>
              if send_prompts en then set_span_completions en s response else (None, s)))"

section \<open>The interception wrappers (anthropic package)\<close>

text \<open>\<open>isinstance(response, Stream) or isinstance(response, AsyncStream)\<close>.\<close>

definition is_streaming_response :: "val \<Rightarrow> bool" where
  "is_streaming_response response =
     (case response of VObj c fs \<Rightarrow> c = ''Stream'' \<or> c = ''AsyncStream'' | _ \<Rightarrow> False)"

definition lower_char :: "char \<Rightarrow> char" where
  "lower_char c =
     (if 65 \<le> (of_char c :: nat) \<and> (of_char c :: nat) \<le> 90 then char_of ((of_char c :: nat) + 32)
      else c)"

text \<open>\<open>(os.getenv("TRACELOOP_METRICS_ENABLED") or "true").lower() == "true"\<close>.\<close>

definition is_metrics_enabled :: "env \<Rightarrow> bool" where
  "is_metrics_enabled en =
     (map lower_char
        (case metrics_var en of None \<Rightarrow> ''true'' | Some s \<Rightarrow> if s = [] then ''true'' else s)
      = ''true'')"

definition token_counter_spec :: instrument where
  "token_counter_spec =
     \<lparr>iname = ''llm.anthropic.completion.tokens'', iunit = ''token'',
      description = ''Number of tokens used in prompt and completions'', ikind = Counter\<rparr>"

definition choice_counter_spec :: instrument where
  "choice_counter_spec =
     \<lparr>iname = ''llm.anthropic.completion.choices'', iunit = ''choice'',
      description = ''Number of choices returned by chat completions call'', ikind = Counter\<rparr>"

definition duration_histogram_spec :: instrument where
  "duration_histogram_spec =
     \<lparr>iname = ''llm.anthropic.completion.duration'', iunit = ''s'',
      description = ''Duration of chat completion operation'', ikind = Histogram\<rparr>"

definition exception_counter_spec :: instrument where
  "exception_counter_spec =
     \<lparr>iname = ''llm.anthropic.completion.exceptions'', iunit = ''time'',
      description = ''Number of exceptions occurred during chat completions'', ikind = Counter\<rparr>"

text \<open>\<open>_create_metrics(meter)\<close>: the tuple it returns, and the meter after the four creations.\<close>

definition create_metrics :: "world \<Rightarrow> instrument option list \<times> world" where
  "create_metrics w =
     ([Some token_counter_spec, Some choice_counter_spec, Some duration_histogram_spec,
       Some exception_counter_spec],
      create_instrument exception_counter_spec
        (create_instrument duration_histogram_spec
           (create_instrument choice_counter_spec (create_instrument token_counter_spec w))))"

text \<open>Unpacking a tuple into four names.\<close>

fun unpack4 :: "'a list \<Rightarrow> exn + 'a \<times> 'a \<times> 'a \<times> 'a" where
  "unpack4 [a, b, c, d] = Inr (a, b, c, d)"
| "unpack4 xs =
     Inl (Exn ''ValueError''
       (if length xs < 4 then ''not enough values to unpack'' else ''too many values to unpack''))"

text \<open>
  Lines 360 to 373 of \<open>_wrap\<close>: the four instruments when metrics are enabled, and the
  tuple \<open>(None, None, None)\<close> otherwise.
\<close>

definition wrap_instruments :: "env \<Rightarrow> world
    \<Rightarrow> exn + (instrument option \<times> instrument option \<times> instrument option \<times> instrument option) \<times> world" where
  "wrap_instruments en w =
     (if is_metrics_enabled en then
        (case create_metrics w of
           (created, w1) \<Rightarrow>
             (case unpack4 created of Inl e \<Rightarrow> Inl e | Inr t \<Rightarrow> Inr (t, w1)))
      else
        (case unpack4 [None, None, None] of Inl e \<Rightarrow> Inl e | Inr t \<Rightarrow> Inr (t, w)))"

definition get_shared_metric_attributes :: "val \<Rightarrow> exn option \<Rightarrow> exn + dict" where
  "get_shared_metric_attributes response exception =
     (if truthy response then
        (case as_dict response of
           Inl e \<Rightarrow> Inl e
         | Inr d \<Rightarrow> Inr [(''llm.response.model'', dict_get d ''model'')])
      else
        (case exception of
           Some e \<Rightarrow> Inr [(''error.type'', VStr (cls e))]
         | None \<Rightarrow> Inr []))"

text \<open>
  What a wrapper hands back: a value, the replacement sequence of the streaming adapter
  over a raw stream, or the coroutine object of a call of the asynchronous wrapped
  callable that has not been awaited (its body has not run).
\<close>

datatype ret = Value val | Adapted val | Coroutine "val list" dict

text \<open>
  Modelled from the spec: \<open>_build_from_streaming_response\<close> and
  \<open>_abuild_from_streaming_response\<close> of the package's \<open>streaming\<close> module, which is not
  among the sources. The adapter returns a replacement lazy sequence over the raw
  stream; the span is finalised only when that sequence is consumed, so building it
  leaves the span as it is.
\<close>

definition build_from_streaming_response :: "span \<Rightarrow> val \<Rightarrow> val \<Rightarrow> dict \<Rightarrow> ret" where
  "build_from_streaming_response s response client kwargs = Adapted response"

text \<open>
  Starting the span and recording the request (lines 375 to 391 of \<open>_wrap\<close>, 448 to 464
  of \<open>_awrap\<close>): a failure of the extraction is logged and goes no further.
\<close>

definition open_span :: "env \<Rightarrow> dict \<Rightarrow> dict \<Rightarrow> world \<Rightarrow> span \<times> world" where
  "open_span en to_wrap kwargs w =
     (let span0 = start_span en (dict_get to_wrap ''span_name'')
                    [(LLM_VENDOR, VStr ''Anthropic''), (LLM_REQUEST_TYPE, VStr REQUEST_TYPE_COMPLETION)]
      in if is_recording span0 then
           (case set_input_attributes en span0 kwargs of
              (Some ex, s) \<Rightarrow>
                (s, log_warning (''Failed to set input attributes for anthropic span, error: '' @ msg ex) w)
            | (None, s) \<Rightarrow> (s, w))
         else (span0, w))"

text \<open>
  The timed call of \<open>_wrap\<close> (lines 393 to 414): \<open>try\<close>, \<open>except\<close> with \<open>raise e\<close>, and
  the \<open>finally\<close> block. The result is the exception that leaves the block, or the
  response with the shared metric attributes.
\<close>

definition wrap_call :: "env \<Rightarrow> (val list \<Rightarrow> dict \<Rightarrow> exn + val) \<Rightarrow> val list \<Rightarrow> dict
    \<Rightarrow> instrument option \<Rightarrow> instrument option \<Rightarrow> world \<Rightarrow> (exn + val \<times> dict) \<times> world" where
  "wrap_call en wrapped args kwargs duration_histogram exception_counter w =
     (case time_time en w of
        (start_time, w1) \<Rightarrow>
          (case invoke wrapped args kwargs w1 of
             (r, w2) \<Rightarrow>
               (case time_time en w2 of
                  (end_time, w3) \<Rightarrow>
                    (let response = (case r of Inr v \<Rightarrow> v | Inl e \<Rightarrow> VNone);
                         exception = (case r of Inl e \<Rightarrow> Some e | Inr v \<Rightarrow> None)
                     in case get_shared_metric_attributes response exception of
                          Inl e \<Rightarrow> (Inl e, w3)
                        | Inr metric_attributes \<Rightarrow>
                           (let w4 = (case duration_histogram of
                                        Some h \<Rightarrow>
                                          if end_time \<noteq> 0 then
                                            record_point h (VFloat (end_time - start_time))
                                              metric_attributes w3
                                          else w3
                                      | None \<Rightarrow> w3);
                                w5 = (case exception_counter of
                                        Some c \<Rightarrow>
                                          if exception \<noteq> None then
                                            record_point c (VInt 1) metric_attributes w4
                                          else w4
                                      | None \<Rightarrow> w4)
                            in case r of
                                 Inl e \<Rightarrow> (Inl e, w5)
                               | Inr v \<Rightarrow> (Inr (v, metric_attributes), w5))))))"

abbreviation response_warning :: "exn \<Rightarrow> string" where
  "response_warning ex \<equiv> ''Failed to set response attributes for anthropic span, error: '' @ msg ex"

text \<open>Lines 416 to 440 of \<open>_wrap\<close>: what happens to a response the call returned.\<close>

definition wrap_response :: "env \<Rightarrow> span \<Rightarrow> val \<Rightarrow> dict \<Rightarrow> val \<Rightarrow> dict \<Rightarrow> instrument option
    \<Rightarrow> instrument option \<Rightarrow> world \<Rightarrow> (exn + ret) \<times> world" where
  "wrap_response en s instance kwargs response metric_attributes token_counter choice_counter w =
     (if is_streaming_response response then
        (case py_getattr instance ''_client'' of
           Inl e \<Rightarrow> (Inl e, file_span s w)
         | Inr client \<Rightarrow> (Inr (build_from_streaming_response s response client kwargs), file_span s w))
      else if truthy response then
        (case (if is_recording s then
                 (case set_response_attributes en s response of
                    (Some ex, s1) \<Rightarrow> (s1, log_warning (response_warning ex) w)
                  | (None, s1) \<Rightarrow>
                     (case py_getattr instance ''_client'' of
                        Inl ex \<Rightarrow> (s1, log_warning (response_warning ex) w)
                      | Inr client \<Rightarrow>
                         (case set_token_usage en s1 kwargs response metric_attributes
                                 token_counter choice_counter w of
                            (Some ex, s2, w1) \<Rightarrow> (s2, log_warning (response_warning ex) w1)
                          | (None, s2, w1) \<Rightarrow> (s2, w1))))
               else (s, w)) of
           (s3, w2) \<Rightarrow>
             (let s4 = (if is_recording s3 then span_set_status s3 StatusOk else s3)
              in (Inr (Value response), file_span (span_end s4) w2)))
      else (Inr (Value response), file_span (span_end s) w))"

definition wrap :: "env \<Rightarrow> dict \<Rightarrow> (val list \<Rightarrow> dict \<Rightarrow> exn + val) \<Rightarrow> val \<Rightarrow> val list \<Rightarrow> dict
    \<Rightarrow> world \<Rightarrow> (exn + ret) \<times> world" where
  "wrap en to_wrap wrapped instance args kwargs w =
     (if suppress en then
        (case invoke wrapped args kwargs w of
           (Inl e, w1) \<Rightarrow> (Inl e, w1)
         | (Inr v, w1) \<Rightarrow> (Inr (Value v), w1))
      else
        (case wrap_instruments en w of
           Inl e \<Rightarrow> (Inl e, w)
         | Inr ((token_counter, choice_counter, duration_histogram, exception_counter), w1) \<Rightarrow>
            (case open_span en to_wrap kwargs w1 of
               (s, w2) \<Rightarrow>
                 (case wrap_call en wrapped args kwargs duration_histogram exception_counter w2 of
                    (Inl e, w3) \<Rightarrow> (Inl e, file_span s w3)
                  | (Inr (response, metric_attributes), w3) \<Rightarrow>
                      wrap_response en s instance kwargs response metric_attributes
                        token_counter choice_counter w3))))"

text \<open>Lines 468 to 484 of \<open>_awrap\<close>.\<close>

definition awrap_response :: "env \<Rightarrow> span \<Rightarrow> val \<Rightarrow> dict \<Rightarrow> val \<Rightarrow> world \<Rightarrow> (exn + ret) \<times> world" where
  "awrap_response en s instance kwargs response w =
     (if is_streaming_response response then
        (case py_getattr instance ''_client'' of
           Inl e \<Rightarrow> (Inl e, file_span s w)
         | Inr client \<Rightarrow> (Inr (build_from_streaming_response s response client kwargs), file_span s w))
      else if truthy response then
        (case (if is_recording s then
                 (case set_response_attributes en s response of
                    (Some ex, s1) \<Rightarrow> (s1, log_warning (response_warning ex) w)
                  | (None, s1) \<Rightarrow>
                     (case py_getattr instance ''_client'' of
                        Inl ex \<Rightarrow> (s1, log_warning (response_warning ex) w)
                      | Inr client \<Rightarrow>
                         (case set_token_usage_a en s1 kwargs response of
                            (Some ex, s2) \<Rightarrow> (s2, log_warning (response_warning ex) w)
                          | (None, s2) \<Rightarrow> (s2, w))))
               else (s, w)) of
           (s3, w2) \<Rightarrow>
             (let s4 = (if is_recording s3 then span_set_status s3 StatusOk else s3)
              in (Inr (Value response), file_span (span_end s4) w2)))
      else (Inr (Value response), file_span (span_end s) w))"

text \<open>
  \<open>_awrap\<close>. The wrapped callable is asynchronous: calling it yields a coroutine, and
  \<open>await\<close> runs it (the \<open>invoke\<close> of the model). Under suppression the source returns
  \<open>wrapped(*args, **kwargs)\<close> as it is.
\<close>

definition awrap :: "env \<Rightarrow> dict \<Rightarrow> (val list \<Rightarrow> dict \<Rightarrow> exn + val) \<Rightarrow> val \<Rightarrow> val list \<Rightarrow> dict
    \<Rightarrow> world \<Rightarrow> (exn + ret) \<times> world" where
  "awrap en to_wrap wrapped instance args kwargs w =
     (if suppress en then (Inr (Coroutine args kwargs), w)
      else
        (case open_span en to_wrap kwargs w of
           (s, w1) \<Rightarrow>
             (case invoke wrapped args kwargs w1 of
                (Inl e, w2) \<Rightarrow> (Inl e, file_span s w2)
              | (Inr response, w2) \<Rightarrow> awrap_response en s instance kwargs response w2)))"

text \<open>
  What the caller of the uninstrumented method gets: the outcome of the call (for the
  asynchronous method, of awaiting it).
\<close>

definition uninstrumented :: "(val list \<Rightarrow> dict \<Rightarrow> exn + val) \<Rightarrow> val list \<Rightarrow> dict \<Rightarrow> exn + ret" where
  "uninstrumented wrapped args kwargs =
     (case wrapped args kwargs of Inl e \<Rightarrow> Inl e | Inr v \<Rightarrow> Inr (Value v))"

section \<open>The chat wrapper (langchain package)\<close>

text \<open>\<open>instance.model if hasattr(instance, "model") else instance.model_name\<close>.\<close>

definition request_model :: "val \<Rightarrow> exn + val" where
  "request_model instance =
     (case py_getattr instance ''model'' of
        Inr m \<Rightarrow> Inr m
      | Inl e \<Rightarrow> py_getattr instance ''model_name'')"

fun request_prompts_loop :: "env \<Rightarrow> span \<Rightarrow> nat \<Rightarrow> val list \<Rightarrow> exn option \<times> span" where
  "request_prompts_loop en sp idx [] = (None, sp)"
| "request_prompts_loop en sp idx (prompt # rest) =
     (case py_getattr prompt ''content'' of
        Inl e \<Rightarrow> (Some e, sp)
      | Inr content \<Rightarrow>
          request_prompts_loop en
            (span_set_attribute sp (prompt_key idx)
               (case content of VList xs \<Rightarrow> VStr (json_dumps en content) | _ \<Rightarrow> content))
            (Suc idx) rest)"

definition handle_request :: "env \<Rightarrow> span \<Rightarrow> val list \<Rightarrow> dict \<Rightarrow> val \<Rightarrow> exn option \<times> span" where
  "handle_request en span0 args kwargs instance =
     (case request_model instance of
        Inl e \<Rightarrow> (Some e, span0)
      | Inr model \<Rightarrow>
         (let s1 = span_set_attribute span0 LLM_REQUEST_TYPE (VStr REQUEST_TYPE_CHAT);
              s2 = span_set_attribute s1 LLM_REQUEST_MODEL model;
              s3 = span_set_attribute s2 LLM_RESPONSE_MODEL model
          in if send_prompts en then
               (case py_first (VList args) of
                  Inl e \<Rightarrow> (Some e, s3)
                | Inr a0 \<Rightarrow>
                   (case py_first a0 of
                      Inl e \<Rightarrow> (Some e, s3)
                    | Inr a00 \<Rightarrow>
                       (case py_iter a00 of
                          Inl e \<Rightarrow> (Some e, s3)
                        | Inr prompts \<Rightarrow> request_prompts_loop en s3 0 prompts)))
             else (None, s3)))"

fun response_generations_loop :: "span \<Rightarrow> nat \<Rightarrow> val list \<Rightarrow> exn option \<times> span" where
  "response_generations_loop sp idx [] = (None, sp)"
| "response_generations_loop sp idx (generation # rest) =
     (case py_first generation of
        Inl e \<Rightarrow> (Some e, sp)
      | Inr g0 \<Rightarrow>
         (case py_getattr g0 ''text'' of
            Inl e \<Rightarrow> (Some e, sp)
          | Inr t \<Rightarrow>
              response_generations_loop (span_set_attribute sp (completion_key idx) t) (Suc idx) rest))"

definition handle_response :: "env \<Rightarrow> span \<Rightarrow> val \<Rightarrow> exn option \<times> span" where
  "handle_response en s return_value =
     (if send_prompts en then
        (case py_getattr return_value ''generations'' of
           Inl e \<Rightarrow> (Some e, s)
         | Inr gens \<Rightarrow>
            (case py_iter gens of
               Inl e \<Rightarrow> (Some e, s)
             | Inr gs \<Rightarrow> response_generations_loop s 0 gs))
      else (None, s))"

text \<open>
  Leaving the \<open>with tracer.start_as_current_span(name)\<close> block of the backend by an
  exception: the span gets the error status and is ended, and the exception goes on.
\<close>

definition span_exit_raise :: "span \<Rightarrow> span" where
  "span_exit_raise s = span_end (span_set_status s StatusError)"

definition chat_wrapper :: "env \<Rightarrow> (val list \<Rightarrow> dict \<Rightarrow> exn + val) \<Rightarrow> val \<Rightarrow> val list \<Rightarrow> dict
    \<Rightarrow> world \<Rightarrow> (exn + ret) \<times> world" where
  "chat_wrapper en wrapped instance args kwargs w =
     (if suppress en then
        (case invoke wrapped args kwargs w of
           (Inl e, w1) \<Rightarrow> (Inl e, w1)
         | (Inr v, w1) \<Rightarrow> (Inr (Value v), w1))
      else
        (let span0 = start_span en (VStr (''langchain.task.'' @ class_name instance)) []
         in case handle_request en span0 args kwargs instance of
              (Some e, s1) \<Rightarrow> (Inl e, file_span (span_exit_raise s1) w)
            | (None, s1) \<Rightarrow>
               (case invoke wrapped args kwargs w of
                  (Inl e, w1) \<Rightarrow> (Inl e, file_span (span_exit_raise s1) w1)
                | (Inr return_value, w1) \<Rightarrow>
                   (case handle_response en s1 return_value of
                      (Some e, s2) \<Rightarrow> (Inl e, file_span (span_exit_raise s2) w1)
                    | (None, s2) \<Rightarrow> (Inr (Value return_value), file_span (span_end s2) w1)))))"

section \<open>Vocabulary of the statements\<close>

text \<open>The request attributes \<open>_set_input_attributes\<close> writes besides the prompts.\<close>

definition request_keys :: "string set" where
  "request_keys = {LLM_REQUEST_MODEL, LLM_REQUEST_MAX_TOKENS, LLM_TEMPERATURE, LLM_TOP_P,
     LLM_FREQUENCY_PENALTY, LLM_PRESENCE_PENALTY, LLM_IS_STREAMING}"

text \<open>
  The three usage attributes of a span agree when the total, if recorded, is the integer
  sum of a recorded prompt count and a recorded completion count.
\<close>

definition usage_sum_ok :: "span \<Rightarrow> bool" where
  "usage_sum_ok s =
     (case attributes s LLM_USAGE_TOTAL_TOKENS of
        None \<Rightarrow> True
      | Some t \<Rightarrow>
         (case (attributes s LLM_USAGE_PROMPT_TOKENS, attributes s LLM_USAGE_COMPLETION_TOKENS) of
            (Some (VInt p), Some (VInt c)) \<Rightarrow> t = VInt (p + c)
          | _ \<Rightarrow> False))"

text \<open>An attribute or a count that, when there is one, is an \<open>int\<close>.\<close>

definition int_if_present :: "exn + val \<Rightarrow> bool" where
  "int_if_present r = (case r of Inl e \<Rightarrow> True | Inr (VInt i) \<Rightarrow> True | Inr _ \<Rightarrow> False)"

text \<open>The usage sub-structure of a response holds integer token counts.\<close>

definition usage_ints :: "val \<Rightarrow> bool" where
  "usage_ints response =
     (case as_dict response of
        Inl e \<Rightarrow> True
      | Inr d \<Rightarrow>
          int_if_present (py_getattr (dict_get d ''usage'') ''input_tokens'')
          \<and> int_if_present (py_getattr (dict_get d ''usage'') ''output_tokens''))"

section \<open>Concrete collaborators and inputs\<close>

text \<open>
  A token counter that counts characters and rejects anything but a string, an
  environment with every policy at its default, an empty world, and requests and
  responses of the messages API and of a chat model.
\<close>

definition demo_count :: "val \<Rightarrow> exn + val" where
  "demo_count v =
     (case v of
        VStr s \<Rightarrow> Inr (VInt (int (length s)))
      | _ \<Rightarrow> Inl (Exn ''TypeError'' ''expected str''))"

definition demo_env :: env where
  "demo_env =
     \<lparr>suppress = False, metrics_var = None, send_prompts = True, tracer_samples = True,
      clock = (\<lambda>n. 100 + 2 * real n), count_tokens = demo_count,
      writable = (\<lambda>v. v \<noteq> VNone \<and> v \<noteq> VStr []),
      json_dumps = (\<lambda>v. ''[]''), py_str = (\<lambda>v. [])\<rparr>"

definition demo_world :: world where
  "demo_world = \<lparr>spans = [], instruments = [], points = [], warnings = [], trace = [], reads = 0\<rparr>"

definition demo_to_wrap :: dict where
  "demo_to_wrap =
     [(''package'', VStr ''anthropic.resources.messages''), (''object'', VStr ''Messages''),
      (''method'', VStr ''create''), (''span_name'', VStr ''anthropic.completion'')]"

definition demo_instance :: val where
  "demo_instance = VObj ''Messages'' [(''_client'', VObj ''Anthropic'' [])]"

definition demo_kwargs :: dict where
  "demo_kwargs =
     [(''max_tokens'', VInt 1024),
      (''messages'', VList [VDict [(''role'', VStr ''user''), (''content'', VStr ''Tell me a joke'')]]),
      (''model'', VStr ''claude-3-opus-20240229'')]"

definition demo_response_fields :: dict where
  "demo_response_fields =
       [(''content'', VList [VObj ''ContentBlock'' [(''text'', VStr ''Why?''), (''type'', VStr ''text'')]]),
        (''model'', VStr ''claude-3-opus-20240229''), (''stop_reason'', VStr ''end_turn''),
        (''usage'', VObj ''Usage'' [(''input_tokens'', VInt 8), (''output_tokens'', VInt 20)])]"

definition demo_response :: val where
  "demo_response = VObj ''Message'' demo_response_fields"

definition demo_stream :: val where
  "demo_stream = VObj ''Stream'' []"

definition demo_returns :: "val list \<Rightarrow> dict \<Rightarrow> exn + val" where
  "demo_returns args kwargs = Inr demo_response"

definition demo_streams :: "val list \<Rightarrow> dict \<Rightarrow> exn + val" where
  "demo_streams args kwargs = Inr demo_stream"

definition demo_raises :: "val list \<Rightarrow> dict \<Rightarrow> exn + val" where
  "demo_raises args kwargs = Inl (Exn ''RateLimitError'' ''rate limited'')"

definition demo_span :: span where
  "demo_span = start_span demo_env (VStr ''anthropic.completion'') []"

definition demo_kwargs_parts :: dict where
  "demo_kwargs_parts =
     [(''max_tokens'', VInt 1024),
      (''messages'', VList [VDict [(''role'', VStr ''user''),
         (''content'', VList [VDict [(''type'', VStr ''text''), (''text'', VStr ''What do you see?'')]])]]),
      (''model'', VStr ''claude-3-opus-20240229'')]"

definition demo_two_items :: dict where
  "demo_two_items =
       [(''content'', VList [VObj ''ContentBlock'' [(''text'', VStr ''Why?''), (''type'', VStr ''text'')],
           VObj ''ContentBlock'' [(''text'', VStr ''Because it could not trace.''), (''type'', VStr ''text'')]]),
        (''model'', VStr ''claude-3-opus-20240229''), (''stop_reason'', VStr ''end_turn'')]"

definition demo_chat_instance :: val where
  "demo_chat_instance = VObj ''ChatOpenAI'' [(''model_name'', VStr ''gpt-4'')]"

definition demo_chat_args :: "val list" where
  "demo_chat_args = [VList [VList [VObj ''HumanMessage'' [(''content'', VStr ''hi'')]]]]"

definition demo_chat_returns :: "val list \<Rightarrow> dict \<Rightarrow> exn + val" where
  "demo_chat_returns args kwargs =
     Inr (VObj ''LLMResult''
       [(''generations'', VList [VList [VObj ''ChatGeneration'' [(''text'', VStr ''hello'')]]]),
        (''llm_output'', VDict [(''model_name'', VStr ''gpt-4-0613'')])])"

section \<open>Evaluation on concrete inputs\<close>

lemmas demo_defs = demo_count_def demo_env_def demo_world_def demo_to_wrap_def demo_instance_def
  demo_kwargs_def demo_response_def demo_response_fields_def demo_stream_def demo_returns_def demo_streams_def demo_raises_def

lemmas wrapper_defs = wrap_def awrap_def wrap_instruments_def is_metrics_enabled_def lower_char_def
  create_metrics_def create_instrument_def open_span_def start_span_def is_recording_def
  set_input_attributes_def set_span_attribute_def span_set_attribute_def dict_get_def
  wrap_call_def time_time_def invoke_def get_shared_metric_attributes_def record_point_def
  wrap_response_def awrap_response_def is_streaming_response_def set_response_attributes_def
  set_usage_from_response_def
  set_span_completions_def set_token_usage_def set_token_usage_a_def count_prompt_def
  count_completion_def py_sum_def add_tokens_def count_choices_def set_usage_attributes_def
  span_set_status_def span_end_def file_span_def log_warning_def dump_content_def prompt_key_def
  completion_key_def build_from_streaming_response_def uninstrumented_def token_counter_spec_def
  choice_counter_spec_def duration_histogram_spec_def exception_counter_spec_def

lemmas response_eval = set_response_attributes_def set_usage_from_response_def
  set_span_completions_def set_span_attribute_def span_set_attribute_def dict_get_def
  completion_key_def show_nat.simps is_recording_def start_span_def is_streaming_response_def
  count_prompt_def count_completion_def py_sum_def demo_count_def

lemma demo_env_fields [simp]:
  "\<not> suppress demo_env" "tracer_samples demo_env" "send_prompts demo_env"
  "count_tokens demo_env = demo_count" "clock demo_env n = 100 + 2 * real n"
  "writable demo_env v = (v \<noteq> VNone \<and> v \<noteq> VStr [])"
  by (simp_all add: demo_env_def)

lemma demo_metrics_enabled: "is_metrics_enabled demo_env"
  by (simp add: is_metrics_enabled_def demo_env_def lower_char_def)

lemma demo_counts_ints: "\<forall>v. int_if_present (count_tokens demo_env v)"
  by (simp add: int_if_present_def demo_count_def split: val.splits)

section \<open>What the extraction procedures may change\<close>

lemma set_span_attribute_keeps [simp]:
  "is_recording (set_span_attribute en s k v) = is_recording s"
  "ends (set_span_attribute en s k v) = ends s"
  "sampled (set_span_attribute en s k v) = sampled s"
  "status (set_span_attribute en s k v) = status s"
  by (simp_all add: set_span_attribute_def span_set_attribute_def is_recording_def)

lemma span_set_attribute_keeps [simp]:
  "is_recording (span_set_attribute s k v) = is_recording s"
  "ends (span_set_attribute s k v) = ends s"
  "sampled (span_set_attribute s k v) = sampled s"
  by (simp_all add: span_set_attribute_def is_recording_def)

lemma set_span_attribute_other:
  "k' \<noteq> k \<Longrightarrow> attributes (set_span_attribute en s k v) k' = attributes s k'"
  by (simp add: set_span_attribute_def span_set_attribute_def)

lemma set_span_attribute_same:
  "is_recording s \<Longrightarrow> writable en v \<Longrightarrow> attributes (set_span_attribute en s k v) k = Some v"
  by (simp add: set_span_attribute_def span_set_attribute_def)

lemma span_set_attribute_other:
  "k' \<noteq> k \<Longrightarrow> attributes (span_set_attribute s k v) k' = attributes s k'"
  by (simp add: span_set_attribute_def)

lemma prompt_key_prefix: "prefix ''llm.prompts.'' (prompt_key i)"
  by (simp add: prompt_key_def)

lemma completion_key_prefix: "prefix ''llm.completions.'' (completion_key i)"
  by (simp add: completion_key_def)

lemma set_prompts_loop_keeps:
  "is_recording (snd (set_prompts_loop en s i ms)) = is_recording s
   \<and> ends (snd (set_prompts_loop en s i ms)) = ends s
   \<and> (\<not> prefix ''llm.prompts.'' k \<longrightarrow> attributes (snd (set_prompts_loop en s i ms)) k = attributes s k)"
proof (induction ms arbitrary: s i)
  case Nil
  show ?case by simp
next
  case (Cons m ms)
  have "\<not> prefix ''llm.prompts.'' k \<Longrightarrow> k \<noteq> prompt_key i"
    using prompt_key_prefix by blast
  with Cons show ?case
    by (auto simp: set_span_attribute_other split: sum.splits)
qed

lemma set_completions_loop_keeps:
  "is_recording (snd (set_completions_loop en s i cs)) = is_recording s
   \<and> ends (snd (set_completions_loop en s i cs)) = ends s
   \<and> (\<not> prefix ''llm.completions.'' k \<longrightarrow> attributes (snd (set_completions_loop en s i cs)) k = attributes s k)"
proof (induction cs arbitrary: s i)
  case Nil
  show ?case by simp
next
  case (Cons c cs)
  have "\<not> prefix ''llm.completions.'' k \<Longrightarrow> k \<noteq> completion_key i"
    using completion_key_prefix by blast
  with Cons show ?case
    by (auto simp: set_span_attribute_other split: sum.splits)
qed

lemma set_input_attributes_keeps:
  "is_recording (snd (set_input_attributes en s kwargs)) = is_recording s"
  "ends (snd (set_input_attributes en s kwargs)) = ends s"
  by (auto simp: set_input_attributes_def Let_def set_prompts_loop_keeps split: sum.splits)

lemma set_input_attributes_other:
  assumes "k \<notin> request_keys" and "\<not> prefix ''llm.prompts.'' k"
  shows "attributes (snd (set_input_attributes en s kwargs)) k = attributes s k"
proof -
  have ne: "k \<noteq> LLM_REQUEST_MODEL" "k \<noteq> LLM_REQUEST_MAX_TOKENS" "k \<noteq> LLM_TEMPERATURE"
    "k \<noteq> LLM_TOP_P" "k \<noteq> LLM_FREQUENCY_PENALTY" "k \<noteq> LLM_PRESENCE_PENALTY"
    "k \<noteq> LLM_IS_STREAMING"
    using assms(1) by (auto simp: request_keys_def)
  have p0: "k \<noteq> ''llm.prompts.0.user''"
    using assms(2) by auto
  show ?thesis
    using ne p0 assms(2)
    by (auto simp: set_input_attributes_def Let_def set_span_attribute_other set_prompts_loop_keeps
          split: sum.splits)
qed

lemma set_span_completions_keeps:
  "is_recording (snd (set_span_completions en s d)) = is_recording s"
  "ends (snd (set_span_completions en s d)) = ends s"
  by (auto simp: set_span_completions_def Let_def set_completions_loop_keeps split: sum.splits)

lemma set_span_completions_other:
  assumes "\<not> prefix ''llm.completions.'' k"
  shows "attributes (snd (set_span_completions en s d)) k = attributes s k"
proof -
  have "k \<noteq> ''llm.completions.0.finish_reason''" "k \<noteq> ''llm.completions.0.content''"
    using assms by auto
  then show ?thesis
    using assms
    by (auto simp: set_span_completions_def Let_def set_span_attribute_other
          set_completions_loop_keeps split: sum.splits)
qed

lemma span_end_attributes [simp]:
  "attributes (span_end s) = attributes s"
  "attributes (span_set_status s c) = attributes s"
  by (simp_all add: span_end_def span_set_status_def)

lemma span_exit_raise_attributes [simp]:
  "attributes (span_exit_raise s) = attributes s"
  by (simp add: span_exit_raise_def)

lemma file_span_last [simp]:
  "last (spans (file_span s w)) = s"
  "points (file_span s w) = points w"
  "trace (file_span s w) = trace w"
  by (simp_all add: file_span_def)

lemma instrument_names [simp]:
  "iname token_counter_spec = ''llm.anthropic.completion.tokens''"
  "iname choice_counter_spec = ''llm.anthropic.completion.choices''"
  "iname duration_histogram_spec = ''llm.anthropic.completion.duration''"
  "iname exception_counter_spec = ''llm.anthropic.completion.exceptions''"
  by (simp_all add: token_counter_spec_def choice_counter_spec_def duration_histogram_spec_def
        exception_counter_spec_def)

section \<open>The phases of the synchronous wrapper\<close>

lemma wrap_instruments_enabled:
  "is_metrics_enabled en \<Longrightarrow>
   wrap_instruments en w =
     Inr ((Some token_counter_spec, Some choice_counter_spec, Some duration_histogram_spec,
           Some exception_counter_spec), snd (create_metrics w))"
  by (simp add: wrap_instruments_def create_metrics_def)

lemma create_metrics_keeps [simp]:
  "points (snd (create_metrics w)) = points w"
  "trace (snd (create_metrics w)) = trace w"
  "spans (snd (create_metrics w)) = spans w"
  "reads (snd (create_metrics w)) = reads w"
  by (simp_all add: create_metrics_def create_instrument_def)

lemma open_span_keeps [simp]:
  "points (snd (open_span en to_wrap kwargs w)) = points w"
  "trace (snd (open_span en to_wrap kwargs w)) = trace w"
  "spans (snd (open_span en to_wrap kwargs w)) = spans w"
  "reads (snd (open_span en to_wrap kwargs w)) = reads w"
  "instruments (snd (open_span en to_wrap kwargs w)) = instruments w"
  by (simp_all add: open_span_def Let_def log_warning_def split: prod.splits option.splits)

lemma wrap_call_result:
  "fst (wrap_call en wrapped args kwargs dh ec w) =
     (case wrapped args kwargs of
        Inl e \<Rightarrow> Inl e
      | Inr v \<Rightarrow>
         (case get_shared_metric_attributes v None of
            Inl e' \<Rightarrow> Inl e'
          | Inr ma \<Rightarrow> Inr (v, ma)))"
  by (simp add: wrap_call_def time_time_def invoke_def Let_def get_shared_metric_attributes_def
        split: sum.splits prod.splits option.splits)

lemma wrap_response_result:
  "\<not> is_streaming_response v \<Longrightarrow>
   fst (wrap_response en s inst kwargs v ma tc cc w) = Inr (Value v)"
  by (simp add: wrap_response_def Let_def split: prod.splits)

lemma awrap_response_result:
  "\<not> is_streaming_response v \<Longrightarrow>
   fst (awrap_response en s inst kwargs v w) = Inr (Value v)"
  by (simp add: awrap_response_def Let_def split: prod.splits)

lemma shared_attributes_of_response:
  "truthy v \<longrightarrow> \<not> isl (as_dict v) \<Longrightarrow> \<not> isl (get_shared_metric_attributes v None)"
  by (auto simp: get_shared_metric_attributes_def split: sum.splits)

lemma wrap_call_trace:
  "trace (snd (wrap_call en wrapped args kwargs dh ec w)) =
     trace w @ [Time (clock en (reads w)), Invoke args kwargs, Time (clock en (Suc (reads w)))]"
  by (simp add: wrap_call_def time_time_def invoke_def Let_def record_point_def
        split: sum.splits prod.splits option.splits)

lemma wrap_call_spans [simp]:
  "spans (snd (wrap_call en wrapped args kwargs dh ec w)) = spans w"
  by (simp add: wrap_call_def time_time_def invoke_def Let_def record_point_def
        split: sum.splits prod.splits option.splits)

lemma wrap_call_points_raise:
  assumes "wrapped args kwargs = Inl e"
  shows "points (snd (wrap_call en wrapped args kwargs (Some h) (Some c) w)) =
     points w
     @ (if clock en (Suc (reads w)) \<noteq> 0 then
          [\<lparr>on_instrument = iname h,
            pvalue = VFloat (clock en (Suc (reads w)) - clock en (reads w)),
            pattrs = [(''error.type'', VStr (cls e))]\<rparr>]
        else [])
     @ [\<lparr>on_instrument = iname c, pvalue = VInt 1, pattrs = [(''error.type'', VStr (cls e))]\<rparr>]"
  using assms
  by (simp add: wrap_call_def time_time_def invoke_def Let_def record_point_def
        get_shared_metric_attributes_def)

lemma wrap_call_points_return:
  assumes "wrapped args kwargs = Inr v" and "get_shared_metric_attributes v None = Inr ma"
    and "clock en (Suc (reads w)) \<noteq> 0"
  shows "points (snd (wrap_call en wrapped args kwargs (Some h) (Some c) w)) =
     points w
     @ [\<lparr>on_instrument = iname h,
          pvalue = VFloat (clock en (Suc (reads w)) - clock en (reads w)),
          pattrs = ma\<rparr>]"
  using assms
  by (simp add: wrap_call_def time_time_def invoke_def Let_def record_point_def)

lemma add_tokens_keeps [simp]:
  "trace (add_tokens tc n ma ty w) = trace w"
  "spans (add_tokens tc n ma ty w) = spans w"
  by (simp_all add: add_tokens_def record_point_def split: option.splits)

lemma add_tokens_filter:
  assumes "\<forall>c. tc = Some c \<longrightarrow> iname c \<noteq> n"
  shows "filter (\<lambda>p. on_instrument p = n) (points (add_tokens tc v ma ty w))
           = filter (\<lambda>p. on_instrument p = n) (points w)"
  using assms by (simp add: add_tokens_def record_point_def split: option.splits)

lemma set_token_usage_keeps [simp]:
  "trace (snd (snd (set_token_usage en s request response ma tc cc w))) = trace w"
  "spans (snd (snd (set_token_usage en s request response ma tc cc w))) = spans w"
  by (simp_all add: set_token_usage_def Let_def record_point_def split: sum.splits option.splits)

lemma set_token_usage_filter:
  assumes "\<forall>c. tc = Some c \<longrightarrow> iname c \<noteq> n" and "\<forall>c. cc = Some c \<longrightarrow> iname c \<noteq> n"
  shows "filter (\<lambda>p. on_instrument p = n)
           (points (snd (snd (set_token_usage en s request response ma tc cc w))))
         = filter (\<lambda>p. on_instrument p = n) (points w)"
  using assms
  by (simp add: set_token_usage_def Let_def record_point_def add_tokens_filter
        split: sum.splits option.splits)

lemma set_token_usage_world:
  assumes "set_token_usage en s request response ma tc cc w = (r, s', w')"
  shows "trace w' = trace w" and "spans w' = spans w"
  using set_token_usage_keeps [of en s request response ma tc cc w] assms by simp_all

lemma wrap_response_trace:
  "trace (snd (wrap_response en s inst kwargs v ma tc cc w)) = trace w"
  by (auto simp: wrap_response_def Let_def file_span_def log_warning_def
        split: sum.splits prod.splits option.splits dest: set_token_usage_world)

lemma wrap_response_filter:
  assumes "\<forall>c. tc = Some c \<longrightarrow> iname c \<noteq> n" and "\<forall>c. cc = Some c \<longrightarrow> iname c \<noteq> n"
  shows "filter (\<lambda>p. on_instrument p = n)
           (points (snd (wrap_response en s inst kwargs v ma tc cc w)))
         = filter (\<lambda>p. on_instrument p = n) (points w)"
proof -
  have "filter (\<lambda>p. on_instrument p = n) (points w')
         = filter (\<lambda>p. on_instrument p = n) (points w)"
    if "set_token_usage en s1 kwargs v ma tc cc w = (r, s', w')" for s1 r s' w'
    using set_token_usage_filter [OF assms, of en s1 kwargs v ma w] that by simp
  then show ?thesis
    by (auto simp: wrap_response_def Let_def file_span_def log_warning_def
          split: sum.splits prod.splits option.splits)
qed

lemma open_span_no_completions:
  assumes "prefix LLM_COMPLETIONS k"
  shows "attributes (fst (open_span en to_wrap kwargs w)) k = None"
proof -
  from assms obtain r where k: "k = LLM_COMPLETIONS @ r"
    by (auto elim: prefixE)
  have a: "k \<notin> request_keys" "\<not> prefix ''llm.prompts.'' k"
    by (simp_all add: k request_keys_def)
  have b: "attributes (start_span en nm [(LLM_VENDOR, VStr ''Anthropic''),
      (LLM_REQUEST_TYPE, VStr REQUEST_TYPE_COMPLETION)]) k = None" for nm
    by (simp add: start_span_def k)
  show ?thesis
    using set_input_attributes_other [OF a] b
    by (auto simp: open_span_def Let_def split: prod.splits option.splits)
       (metis snd_conv)+
qed

section \<open>Passthrough\<close>




section \<open>The metrics policy flag\<close>

lemma unpack4_three_Nones:
  "unpack4 [None, None, None :: instrument option] = Inl (Exn ''ValueError'' ''not enough values to unpack'')"
  by simp

lemma wrap_metrics_disabled:
  assumes "\<not> suppress en" and "\<not> is_metrics_enabled en"
  shows "wrap en to_wrap wrapped instance args kwargs w
           = (Inl (Exn ''ValueError'' ''not enough values to unpack''), w)"
  using assms by (simp add: wrap_def wrap_instruments_def)

text \<open>
  Claim C2. With the metrics policy flag false no instrument is created and no data
  point is recorded, while the span is still produced and the wrapped call still
  completes. On the call below the flag is \<open>"false"\<close> and the wrapped callable would
  return a response: \<open>_wrap\<close> raises \<open>ValueError\<close> from unpacking the three \<open>None\<close>s into
  four names, and the world is left as it was: no span is started and the wrapped
  callable is never invoked.
\<close>

theorem metrics_disabled_call_fails:
  "\<not> is_metrics_enabled (demo_env\<lparr>metrics_var := Some ''false''\<rparr>)
   \<and> wrap (demo_env\<lparr>metrics_var := Some ''false''\<rparr>) demo_to_wrap demo_returns demo_instance []
        demo_kwargs demo_world
      = (Inl (Exn ''ValueError'' ''not enough values to unpack''), demo_world)
   \<and> spans demo_world = [] \<and> trace demo_world = []
   \<and> uninstrumented demo_returns [] demo_kwargs = Inr (Value demo_response)"
  by (simp add: wrap_def wrap_instruments_def is_metrics_enabled_def lower_char_def
        demo_env_def demo_world_def uninstrumented_def demo_returns_def)

section \<open>Ending the span\<close>

text \<open>
  Claim C3. Every span the wrapper starts is ended exactly once on every path. On the
  calls below (metrics enabled, a recording span) the wrapped callable raises: the
  exception leaves \<open>_wrap\<close> and \<open>_awrap\<close> past \<open>span.end()\<close>, and the one span each of
  them started has been ended zero times. The same calls with a returning callable end
  their span once.
\<close>

theorem span_not_ended_when_wrapped_raises:
  "fst (wrap demo_env demo_to_wrap demo_raises demo_instance [] demo_kwargs demo_world)
     = Inl (Exn ''RateLimitError'' ''rate limited'')
   \<and> map ends (spans (snd (wrap demo_env demo_to_wrap demo_raises demo_instance [] demo_kwargs demo_world))) = [0]
   \<and> fst (awrap demo_env demo_to_wrap demo_raises demo_instance [] demo_kwargs demo_world)
     = Inl (Exn ''RateLimitError'' ''rate limited'')
   \<and> map ends (spans (snd (awrap demo_env demo_to_wrap demo_raises demo_instance [] demo_kwargs demo_world))) = [0]
   \<and> map ends (spans (snd (wrap demo_env demo_to_wrap demo_returns demo_instance [] demo_kwargs demo_world))) = [1]
   \<and> map ends (spans (snd (awrap demo_env demo_to_wrap demo_returns demo_instance [] demo_kwargs demo_world))) = [1]"
  by (simp add: wrapper_defs demo_defs show_nat.simps)

section \<open>Token usage attributes\<close>

lemma int_if_presentD: "int_if_present r \<Longrightarrow> r = Inr x \<Longrightarrow> \<exists>i. x = VInt i"
  by (auto simp: int_if_present_def split: val.splits)

lemma py_sum_from_ints:
  assumes "\<forall>x \<in> set xs. \<exists>i. x = VInt i"
  shows "\<exists>j. py_sum_from (VInt a) xs = Inr (VInt j)"
  using assms
proof (induction xs arbitrary: a)
  case Nil
  show ?case by simp
next
  case (Cons x xs)
  then obtain i where "x = VInt i" by auto
  with Cons show ?case by simp
qed

lemma count_messages_ints:
  assumes "\<forall>v. int_if_present (count_tokens en v)" and "count_messages en ms = Inr ns"
  shows "\<forall>x \<in> set ns. \<exists>i. x = VInt i"
  using assms(2)
proof (induction ms arbitrary: ns)
  case Nil
  then show ?case by simp
next
  case (Cons m ms)
  from Cons.prems obtain c n ns' where
    s: "py_get m ''content'' = Inr c" "count_tokens en c = Inr n"
       "count_messages en ms = Inr ns'" "ns = n # ns'"
    by (auto split: sum.splits)
  from assms(1) s(2) have "\<exists>i. n = VInt i"
    by (auto simp: dest: int_if_presentD)
  with Cons.IH [OF s(3)] s(4) show ?case by simp
qed

lemma count_prompt_int:
  assumes "\<forall>v. int_if_present (count_tokens en v)" and "count_prompt en request = Inr p"
  shows "\<exists>i. p = VInt i"
proof (cases "truthy (dict_get request ''prompt'')")
  case True
  with assms show ?thesis
    by (auto simp: count_prompt_def dest: int_if_presentD)
next
  case False
  show ?thesis
  proof (cases "truthy (dict_get request ''messages'')")
    case True
    with False assms(2) obtain ms ns where
      s: "count_messages en ms = Inr ns" "py_sum ns = Inr p"
      by (auto simp: count_prompt_def split: sum.splits)
    from py_sum_from_ints [OF count_messages_ints [OF assms(1) s(1)], of 0] s(2)
    show ?thesis by (auto simp: py_sum_def)
  next
    case f: False
    with False assms(2) show ?thesis by (auto simp: count_prompt_def)
  qed
qed

lemma count_completion_int:
  assumes "\<forall>v. int_if_present (count_tokens en v)" and "count_completion en response = Inr c"
  shows "\<exists>i. c = VInt i"
  using assms
  by (auto simp: count_completion_def dest: int_if_presentD
        split: if_splits sum.splits)

lemma set_usage_attributes_values:
  assumes "is_recording s" and "writable en p" and "writable en c" and "writable en t"
  shows "attributes (set_usage_attributes en s p c t) LLM_USAGE_PROMPT_TOKENS = Some p"
    and "attributes (set_usage_attributes en s p c t) LLM_USAGE_COMPLETION_TOKENS = Some c"
    and "attributes (set_usage_attributes en s p c t) LLM_USAGE_TOTAL_TOKENS = Some t"
  using assms
  by (simp_all add: set_usage_attributes_def set_span_attribute_def span_set_attribute_def
        is_recording_def)

lemma set_usage_attributes_keeps [simp]:
  "is_recording (set_usage_attributes en s p c t) = is_recording s"
  "ends (set_usage_attributes en s p c t) = ends s"
  by (simp_all add: set_usage_attributes_def)

lemma set_usage_attributes_completion:
  assumes "is_recording s" and "writable en c"
  shows "attributes (set_usage_attributes en s p c t) LLM_USAGE_COMPLETION_TOKENS = Some c"
  using assms
  by (simp add: set_usage_attributes_def set_span_attribute_other set_span_attribute_same)

lemma set_usage_attributes_ok:
  assumes "is_recording s" and "\<forall>i. writable en (VInt i)"
  shows "usage_sum_ok (set_usage_attributes en s (VInt p) (VInt c) (VInt (p + c)))"
  using set_usage_attributes_values [OF assms(1), of en "VInt p" "VInt c" "VInt (p + c)"] assms(2)
  by (simp add: usage_sum_ok_def)

lemma set_token_usage_ok:
  assumes "is_recording s" and "\<forall>i. writable en (VInt i)" and "\<forall>v. int_if_present (count_tokens en v)"
    and "usage_sum_ok s"
  shows "usage_sum_ok (fst (snd (set_token_usage en s request response ma tc cc w)))"
proof (cases "fst (set_token_usage en s request response ma tc cc w)")
  case (Some e)
  then have "fst (snd (set_token_usage en s request response ma tc cc w)) = s"
    by (auto simp: set_token_usage_def Let_def split: sum.splits)
  with assms(4) show ?thesis by simp
next
  case None
  then obtain d p c t where
    s: "count_prompt en request = Inr p" "count_completion en d = Inr c" "py_add p c = Inr t"
       "fst (snd (set_token_usage en s request response ma tc cc w)) = set_usage_attributes en s p c t"
    by (auto simp: set_token_usage_def Let_def split: sum.splits)
  from count_prompt_int [OF assms(3) s(1)] count_completion_int [OF assms(3) s(2)]
  obtain i j where "p = VInt i" "c = VInt j" by auto
  with s(3,4) set_usage_attributes_ok [OF assms(1,2), of i j] show ?thesis by auto
qed

lemma set_token_usage_a_ok:
  assumes "is_recording s" and "\<forall>i. writable en (VInt i)" and "\<forall>v. int_if_present (count_tokens en v)"
    and "usage_sum_ok s"
  shows "usage_sum_ok (snd (set_token_usage_a en s request response))"
proof (cases "fst (set_token_usage_a en s request response)")
  case (Some e)
  then have "snd (set_token_usage_a en s request response) = s"
    by (auto simp: set_token_usage_a_def split: sum.splits)
  with assms(4) show ?thesis by simp
next
  case None
  then obtain d p c t where
    s: "count_prompt en request = Inr p" "count_completion en d = Inr c" "py_add p c = Inr t"
       "snd (set_token_usage_a en s request response) = set_usage_attributes en s p c t"
    by (auto simp: set_token_usage_a_def split: sum.splits)
  from count_prompt_int [OF assms(3) s(1)] count_completion_int [OF assms(3) s(2)]
  obtain i j where "p = VInt i" "c = VInt j" by auto
  with s(3,4) set_usage_attributes_ok [OF assms(1,2), of i j] show ?thesis by auto
qed

lemma set_token_usage_keeps_span [simp]:
  "is_recording (fst (snd (set_token_usage en s request response ma tc cc w))) = is_recording s"
  "ends (fst (snd (set_token_usage en s request response ma tc cc w))) = ends s"
  "is_recording (snd (set_token_usage_a en s request response)) = is_recording s"
  "ends (snd (set_token_usage_a en s request response)) = ends s"
  by (auto simp: set_token_usage_def set_token_usage_a_def Let_def split: sum.splits)

lemma usage_sum_ok_cong:
  assumes "attributes s' LLM_USAGE_PROMPT_TOKENS = attributes s LLM_USAGE_PROMPT_TOKENS"
    and "attributes s' LLM_USAGE_COMPLETION_TOKENS = attributes s LLM_USAGE_COMPLETION_TOKENS"
    and "attributes s' LLM_USAGE_TOTAL_TOKENS = attributes s LLM_USAGE_TOTAL_TOKENS"
  shows "usage_sum_ok s' = usage_sum_ok s"
  unfolding usage_sum_ok_def assms ..

lemma set_usage_from_response_keeps [simp]:
  "is_recording (snd (set_usage_from_response en s d)) = is_recording s"
  "ends (snd (set_usage_from_response en s d)) = ends s"
  by (auto simp: set_usage_from_response_def Let_def split: sum.splits)

lemma set_usage_from_response_ok:
  assumes "is_recording s" and "\<forall>i. writable en (VInt i)"
    and "int_if_present (py_getattr (dict_get d ''usage'') ''input_tokens'')"
    and "int_if_present (py_getattr (dict_get d ''usage'') ''output_tokens'')"
    and "usage_sum_ok s"
  shows "usage_sum_ok (snd (set_usage_from_response en s d))"
proof (cases "truthy (dict_get d ''usage'')")
  case False
  with assms(5) show ?thesis by (simp add: set_usage_from_response_def)
next
  case True
  show ?thesis
  proof (cases "py_getattr (dict_get d ''usage'') ''input_tokens''")
    case (Inl e)
    with True assms(5) show ?thesis by (simp add: set_usage_from_response_def)
  next
    case p: (Inr pv)
    show ?thesis
    proof (cases "py_getattr (dict_get d ''usage'') ''output_tokens''")
      case (Inl e)
      with True p assms(5) show ?thesis by (simp add: set_usage_from_response_def)
    next
      case c: (Inr cv)
      from int_if_presentD [OF assms(3) p] int_if_presentD [OF assms(4) c]
      obtain i j where ij: "pv = VInt i" "cv = VInt j" by auto
      have "snd (set_usage_from_response en s d)
              = set_usage_attributes en s (VInt i) (VInt j) (VInt (i + j))"
        using True p c ij
        by (simp add: set_usage_from_response_def Let_def set_usage_attributes_def)
      with set_usage_attributes_ok [OF assms(1,2), of i j] show ?thesis by simp
    qed
  qed
qed

lemma set_response_attributes_keeps [simp]:
  "is_recording (snd (set_response_attributes en s v)) = is_recording s"
  "ends (snd (set_response_attributes en s v)) = ends s"
  by (auto simp: set_response_attributes_def set_span_completions_keeps
        split: sum.splits prod.splits option.splits)
     (metis set_usage_from_response_keeps set_span_attribute_keeps snd_conv)+

lemma set_response_attributes_ok:
  assumes "is_recording s" and "\<forall>i. writable en (VInt i)" and "usage_ints v"
    and "usage_sum_ok s"
  shows "usage_sum_ok (snd (set_response_attributes en s v))"
proof (cases "as_dict v")
  case (Inl e)
  with assms(4) show ?thesis by (simp add: set_response_attributes_def)
next
  case (Inr d)
  define s1 where "s1 = set_span_attribute en s LLM_RESPONSE_MODEL (dict_get d ''model'')"
  have "usage_sum_ok s1 = usage_sum_ok s"
    unfolding s1_def by (rule usage_sum_ok_cong) (simp_all add: set_span_attribute_other)
  with assms(4) have ok1: "usage_sum_ok s1" by simp
  have rec1: "is_recording s1" using assms(1) by (simp add: s1_def)
  from assms(3) Inr have
    "int_if_present (py_getattr (dict_get d ''usage'') ''input_tokens'')"
    "int_if_present (py_getattr (dict_get d ''usage'') ''output_tokens'')"
    by (simp_all add: usage_ints_def)
  from set_usage_from_response_ok [OF rec1 assms(2) this ok1]
  have ok2: "usage_sum_ok (snd (set_usage_from_response en s1 d))" .
  obtain r s2 where u: "set_usage_from_response en s1 d = (r, s2)"
    by (cases "set_usage_from_response en s1 d")
  with ok2 have ok2': "usage_sum_ok s2" by simp
  have "usage_sum_ok (snd (set_span_completions en s2 d)) = usage_sum_ok s2"
    by (rule usage_sum_ok_cong) (simp_all add: set_span_completions_other)
  with ok2' u Inr show ?thesis
    by (cases r) (simp_all add: set_response_attributes_def s1_def)
qed

lemma usage_sum_ok_finish [simp]:
  "usage_sum_ok (span_end s) = usage_sum_ok s"
  "usage_sum_ok (span_set_status s c) = usage_sum_ok s"
  by (rule usage_sum_ok_cong; simp)+

lemma open_span_usage_ok:
  "usage_sum_ok (fst (open_span en to_wrap kwargs w))"
proof -
  have a: "LLM_USAGE_TOTAL_TOKENS \<notin> request_keys" "\<not> prefix ''llm.prompts.'' LLM_USAGE_TOTAL_TOKENS"
    by (simp_all add: request_keys_def)
  have b: "attributes (start_span en nm [(LLM_VENDOR, VStr ''Anthropic''),
      (LLM_REQUEST_TYPE, VStr REQUEST_TYPE_COMPLETION)]) LLM_USAGE_TOTAL_TOKENS = None" for nm
    by (simp add: start_span_def)
  have "attributes (fst (open_span en to_wrap kwargs w)) LLM_USAGE_TOTAL_TOKENS = None"
    using set_input_attributes_other [OF a] b
    by (auto simp: open_span_def Let_def split: prod.splits option.splits)
       (metis snd_conv)+
  then show ?thesis by (simp add: usage_sum_ok_def)
qed

lemma response_phase_ok:
  assumes "\<forall>i. writable en (VInt i)" and "\<forall>v. int_if_present (count_tokens en v)" and "usage_ints v"
    and "usage_sum_ok s"
  shows "usage_sum_ok (last (spans (snd (wrap_response en s inst kwargs v ma tc cc w))))"
    and "usage_sum_ok (last (spans (snd (awrap_response en s inst kwargs v w))))"
proof -
  obtain r1 s1 where a: "set_response_attributes en s v = (r1, s1)"
    by (cases "set_response_attributes en s v")
  have ok1: "is_recording s \<Longrightarrow> usage_sum_ok s1 \<and> is_recording s1"
    using set_response_attributes_ok [OF _ assms(1,3,4)]
      set_response_attributes_keeps(1) [of en s v] a by simp
  obtain r2 s2 w2 where b: "set_token_usage en s1 kwargs v ma tc cc w = (r2, s2, w2)"
    by (cases "set_token_usage en s1 kwargs v ma tc cc w")
  have ok2: "is_recording s \<Longrightarrow> usage_sum_ok s2"
    using set_token_usage_ok [OF _ assms(1,2), of s1 kwargs v ma tc cc w] ok1 b by simp
  obtain r3 s3 where c: "set_token_usage_a en s1 kwargs v = (r3, s3)"
    by (cases "set_token_usage_a en s1 kwargs v")
  have ok3: "is_recording s \<Longrightarrow> usage_sum_ok s3"
    using set_token_usage_a_ok [OF _ assms(1,2), of s1 kwargs v] ok1 c by simp
  show "usage_sum_ok (last (spans (snd (wrap_response en s inst kwargs v ma tc cc w))))"
    using a b ok1 ok2 assms(4)
    by (auto simp: wrap_response_def Let_def split: sum.splits option.splits)
  show "usage_sum_ok (last (spans (snd (awrap_response en s inst kwargs v w))))"
    using a c ok1 ok3 assms(4)
    by (auto simp: awrap_response_def Let_def split: sum.splits option.splits)
qed

lemma set_usage_from_response_values:
  assumes "is_recording s" and "truthy (dict_get d ''usage'')"
    and "py_getattr (dict_get d ''usage'') ''input_tokens'' = Inr pu"
    and "py_getattr (dict_get d ''usage'') ''output_tokens'' = Inr cu"
    and "py_add pu cu = Inr tu"
  shows "set_usage_from_response en s d = (None, set_usage_attributes en s pu cu tu)"
  using assms by (simp add: set_usage_from_response_def Let_def set_usage_attributes_def)

lemma set_token_usage_success:
  assumes "as_dict v = Inr d" and "count_prompt en request = Inr p"
    and "count_completion en d = Inr c" and "py_add p c = Inr t"
  shows "fst (set_token_usage en s request v ma tc cc w) = None"
    and "fst (snd (set_token_usage en s request v ma tc cc w)) = set_usage_attributes en s p c t"
    and "set_token_usage_a en s request v = (None, set_usage_attributes en s p c t)"
  using assms by (simp_all add: set_token_usage_def set_token_usage_a_def Let_def)

lemma set_token_usage_failure:
  assumes "as_dict v = Inr d" and "isl (count_prompt en request) \<or> isl (count_completion en d)"
  shows "fst (snd (set_token_usage en s request v ma tc cc w)) = s"
  using assms by (auto simp: set_token_usage_def Let_def isl_def split: sum.splits)

lemma set_response_attributes_usage_values:
  assumes "is_recording s" and "as_dict v = Inr d" and "truthy (dict_get d ''usage'')"
    and "py_getattr (dict_get d ''usage'') ''input_tokens'' = Inr pu"
    and "py_getattr (dict_get d ''usage'') ''output_tokens'' = Inr cu"
    and "py_add pu cu = Inr tu"
    and "writable en pu" and "writable en cu" and "writable en tu"
  shows "attributes (snd (set_response_attributes en s v)) LLM_USAGE_PROMPT_TOKENS = Some pu
    \<and> attributes (snd (set_response_attributes en s v)) LLM_USAGE_COMPLETION_TOKENS = Some cu
    \<and> attributes (snd (set_response_attributes en s v)) LLM_USAGE_TOTAL_TOKENS = Some tu"
proof -
  define s1 where "s1 = set_span_attribute en s LLM_RESPONSE_MODEL (dict_get d ''model'')"
  have rec1: "is_recording s1" using assms(1) by (simp add: s1_def)
  have u: "set_usage_from_response en s1 d = (None, set_usage_attributes en s1 pu cu tu)"
    using set_usage_from_response_values [OF rec1 assms(3,4,5,6)] .
  have r: "snd (set_response_attributes en s v) =
      (if send_prompts en then snd (set_span_completions en (set_usage_attributes en s1 pu cu tu) d)
       else set_usage_attributes en s1 pu cu tu)"
    using assms(2) u by (simp add: set_response_attributes_def s1_def)
  show ?thesis
    using set_usage_attributes_values [OF rec1 assms(7,8,9)]
    by (simp add: r set_span_completions_other)
qed

text \<open>
  Claim C4. For a non-streaming successful call whose response carries a usage
  sub-structure, the usage attributes are those of the sub-structure, and token counting
  is their source only when it is absent. As amended: \<open>_wrap\<close> runs \<open>_set_token_usage\<close>
  after \<open>_set_response_attributes\<close> whether or not there is a usage sub-structure, so on
  a recording span, when the response attributes were extracted without error and token
  counting completes with counts that \<open>set_span_attribute\<close> writes, the final
  \<open>llm.usage.prompt_tokens\<close>, \<open>llm.usage.completion_tokens\<close> and \<open>llm.usage.total_tokens\<close>
  are the counted values; the values of the usage sub-structure are the final ones when
  token counting raises.
\<close>

theorem token_counting_overrides_usage:
  assumes "is_recording s" and "\<not> is_streaming_response v" and "truthy v"
    and "as_dict v = Inr d" and "py_getattr inst ''_client'' = Inr client"
  shows
    "(let final = last (spans (snd (wrap_response en s inst kwargs v ma tc cc w))) in
       (fst (set_response_attributes en s v) = None
          \<and> count_prompt en kwargs = Inr p \<and> count_completion en d = Inr c \<and> py_add p c = Inr t
          \<and> writable en p \<and> writable en c \<and> writable en t
        \<longrightarrow> attributes final LLM_USAGE_PROMPT_TOKENS = Some p
          \<and> attributes final LLM_USAGE_COMPLETION_TOKENS = Some c
          \<and> attributes final LLM_USAGE_TOTAL_TOKENS = Some t)
     \<and> ((isl (count_prompt en kwargs) \<or> isl (count_completion en d))
          \<and> truthy (dict_get d ''usage'')
          \<and> py_getattr (dict_get d ''usage'') ''input_tokens'' = Inr pu
          \<and> py_getattr (dict_get d ''usage'') ''output_tokens'' = Inr cu
          \<and> py_add pu cu = Inr tu
          \<and> writable en pu \<and> writable en cu \<and> writable en tu
        \<longrightarrow> attributes final LLM_USAGE_PROMPT_TOKENS = Some pu
          \<and> attributes final LLM_USAGE_COMPLETION_TOKENS = Some cu
          \<and> attributes final LLM_USAGE_TOTAL_TOKENS = Some tu))"
proof -
  obtain r1 s1 where a: "set_response_attributes en s v = (r1, s1)"
    by (cases "set_response_attributes en s v")
  have rec1: "is_recording s1"
    using set_response_attributes_keeps(1) [of en s v] a assms(1) by simp
  obtain r2 s2 w2 where b: "set_token_usage en s1 kwargs v ma tc cc w = (r2, s2, w2)"
    by (cases "set_token_usage en s1 kwargs v ma tc cc w")
  have rec2: "is_recording s2"
    using set_token_usage_keeps_span(1) [of en s1 kwargs v ma tc cc w] b rec1 by simp
  let ?final = "last (spans (snd (wrap_response en s inst kwargs v ma tc cc w)))"
  have f: "attributes ?final = attributes (if r1 = None then s2 else s1)"
    using assms a b rec1 rec2
    by (auto simp: wrap_response_def Let_def split: option.splits)
  have A: "attributes ?final LLM_USAGE_PROMPT_TOKENS = Some p
          \<and> attributes ?final LLM_USAGE_COMPLETION_TOKENS = Some c
          \<and> attributes ?final LLM_USAGE_TOTAL_TOKENS = Some t"
    if h: "fst (set_response_attributes en s v) = None" "count_prompt en kwargs = Inr p"
      "count_completion en d = Inr c" "py_add p c = Inr t"
      "writable en p" "writable en c" "writable en t"
  proof -
    from h(1) a have r1: "r1 = None" by simp
    have "s2 = set_usage_attributes en s1 p c t"
      using set_token_usage_success(2) [OF assms(4) h(2,3,4), of s1 ma tc cc w] b by simp
    with f r1 set_usage_attributes_values [OF rec1 h(5,6,7)] show ?thesis by simp
  qed
  have B: "attributes ?final LLM_USAGE_PROMPT_TOKENS = Some pu
          \<and> attributes ?final LLM_USAGE_COMPLETION_TOKENS = Some cu
          \<and> attributes ?final LLM_USAGE_TOTAL_TOKENS = Some tu"
    if h: "isl (count_prompt en kwargs) \<or> isl (count_completion en d)"
      "truthy (dict_get d ''usage'')"
      "py_getattr (dict_get d ''usage'') ''input_tokens'' = Inr pu"
      "py_getattr (dict_get d ''usage'') ''output_tokens'' = Inr cu"
      "py_add pu cu = Inr tu" "writable en pu" "writable en cu" "writable en tu"
  proof -
    have "s2 = s1"
      using set_token_usage_failure [OF assms(4) h(1), of s1 ma tc cc w] b by simp
    with f have "attributes ?final = attributes s1" by simp
    with set_response_attributes_usage_values [OF assms(1,4) h(2,3,4,5,6,7,8)] a
    show ?thesis by simp
  qed
  show ?thesis
    unfolding Let_def using A B by blast
qed

text \<open>
  The theorem at a request whose prompt is counted (14 and 4 tokens against a usage of
  8 and 20) and at a request with a list-valued content, which the counter rejects.
\<close>

theorem token_counting_overrides_usage_witness:
  "attributes (last (spans (snd (wrap_response demo_env demo_span demo_instance demo_kwargs
       demo_response [] None None demo_world)))) LLM_USAGE_PROMPT_TOKENS = Some (VInt 14)
   \<and> attributes (last (spans (snd (wrap_response demo_env demo_span demo_instance demo_kwargs
       demo_response [] None None demo_world)))) LLM_USAGE_TOTAL_TOKENS = Some (VInt 18)
   \<and> isl (count_prompt demo_env demo_kwargs_parts)
   \<and> attributes (last (spans (snd (wrap_response demo_env demo_span demo_instance demo_kwargs_parts
       demo_response [] None None demo_world)))) LLM_USAGE_PROMPT_TOKENS = Some (VInt 8)
   \<and> attributes (last (spans (snd (wrap_response demo_env demo_span demo_instance demo_kwargs_parts
       demo_response [] None None demo_world)))) LLM_USAGE_TOTAL_TOKENS = Some (VInt 28)"
proof -
  have h: "is_recording demo_span" "\<not> is_streaming_response demo_response" "truthy demo_response"
    "as_dict demo_response = Inr demo_response_fields"
    "py_getattr demo_instance ''_client'' = Inr (VObj ''Anthropic'' [])"
    by (simp_all add: demo_span_def demo_response_def demo_response_fields_def demo_instance_def
          response_eval)
  have a: "fst (set_response_attributes demo_env demo_span demo_response) = None"
    "count_prompt demo_env demo_kwargs = Inr (VInt 14)"
    "count_completion demo_env demo_response_fields = Inr (VInt 4)"
    "py_add (VInt 14) (VInt 4) = Inr (VInt 18)"
    by (simp_all add: demo_span_def demo_response_def demo_response_fields_def demo_kwargs_def
          response_eval)
  have b: "isl (count_prompt demo_env demo_kwargs_parts)"
    "truthy (dict_get demo_response_fields ''usage'')"
    "py_getattr (dict_get demo_response_fields ''usage'') ''input_tokens'' = Inr (VInt 8)"
    "py_getattr (dict_get demo_response_fields ''usage'') ''output_tokens'' = Inr (VInt 20)"
    "py_add (VInt 8) (VInt 20) = Inr (VInt 28)"
    by (simp_all add: demo_response_fields_def demo_kwargs_parts_def response_eval)
  from token_counting_overrides_usage [where s = demo_span and v = demo_response
      and d = demo_response_fields and inst = demo_instance and client = "VObj ''Anthropic'' []"
      and en = demo_env and kwargs = demo_kwargs and p = "VInt 14" and c = "VInt 4"
      and t = "VInt 18" and ma = "[]" and tc = None and cc = None and w = demo_world
      and pu = "VInt 8" and cu = "VInt 20" and tu = "VInt 28", OF h] a
  have A: "attributes (last (spans (snd (wrap_response demo_env demo_span demo_instance demo_kwargs
       demo_response [] None None demo_world)))) LLM_USAGE_PROMPT_TOKENS = Some (VInt 14)
   \<and> attributes (last (spans (snd (wrap_response demo_env demo_span demo_instance demo_kwargs
       demo_response [] None None demo_world)))) LLM_USAGE_TOTAL_TOKENS = Some (VInt 18)"
    by (simp add: Let_def)
  from token_counting_overrides_usage [where s = demo_span and v = demo_response
      and d = demo_response_fields and inst = demo_instance and client = "VObj ''Anthropic'' []"
      and en = demo_env and kwargs = demo_kwargs_parts and p = "VInt 14" and c = "VInt 4"
      and t = "VInt 18" and ma = "[]" and tc = None and cc = None and w = demo_world
      and pu = "VInt 8" and cu = "VInt 20" and tu = "VInt 28", OF h] b
  have B: "attributes (last (spans (snd (wrap_response demo_env demo_span demo_instance demo_kwargs_parts
       demo_response [] None None demo_world)))) LLM_USAGE_PROMPT_TOKENS = Some (VInt 8)
   \<and> attributes (last (spans (snd (wrap_response demo_env demo_span demo_instance demo_kwargs_parts
       demo_response [] None None demo_world)))) LLM_USAGE_TOTAL_TOKENS = Some (VInt 28)"
    by (simp add: Let_def)
  from A B b(1) show ?thesis by simp
qed

text \<open>
  The claim as first stated fails on the call below: the response carries a usage
  sub-structure with 8 input and 20 output tokens, and the final attributes are the
  counted 14 and 4.
\<close>

theorem counted_tokens_replace_usage_values:
  "as_dict demo_response = Inr demo_response_fields
   \<and> py_getattr (dict_get demo_response_fields ''usage'') ''input_tokens'' = Inr (VInt 8)
   \<and> py_getattr (dict_get demo_response_fields ''usage'') ''output_tokens'' = Inr (VInt 20)
   \<and> attributes (last (spans (snd (wrap demo_env demo_to_wrap demo_returns demo_instance []
         demo_kwargs demo_world)))) LLM_USAGE_PROMPT_TOKENS = Some (VInt 14)
   \<and> attributes (last (spans (snd (wrap demo_env demo_to_wrap demo_returns demo_instance []
         demo_kwargs demo_world)))) LLM_USAGE_COMPLETION_TOKENS = Some (VInt 4)"
  by (simp add: wrapper_defs demo_defs demo_response_fields_def show_nat.simps)



text \<open>
  Claim C9. When the response has a non-empty content list and no free-text
  completion, the completion token count is the count of the text of the first content
  item: the items after it do not occur in the count, nor in
  \<open>llm.usage.completion_tokens\<close>, in \<open>_set_token_usage\<close> and in \<open>_set_token_usage_a\<close>.
\<close>

theorem completion_count_reads_first_item:
  assumes "as_dict response = Inr d" and "\<not> truthy (dict_get d ''completion'')"
    and "dict_get d ''content'' = VList (c0 # rest)"
  shows "count_completion en d =
           (case py_getattr c0 ''text'' of Inl e \<Rightarrow> Inl e | Inr t \<Rightarrow> count_tokens en t)
    \<and> (is_recording s \<and> py_getattr c0 ''text'' = Inr t \<and> count_tokens en t = Inr n
          \<and> writable en n \<and> count_prompt en request = Inr p \<and> py_add p n = Inr tot
        \<longrightarrow> attributes (fst (snd (set_token_usage en s request response ma tc cc w)))
              LLM_USAGE_COMPLETION_TOKENS = Some n
          \<and> attributes (snd (set_token_usage_a en s request response))
              LLM_USAGE_COMPLETION_TOKENS = Some n)"
proof -
  have cc: "count_completion en d =
           (case py_getattr c0 ''text'' of Inl e \<Rightarrow> Inl e | Inr t \<Rightarrow> count_tokens en t)"
    using assms(2,3) by (simp add: count_completion_def)
  have "attributes (fst (snd (set_token_usage en s request response ma tc cc w)))
              LLM_USAGE_COMPLETION_TOKENS = Some n
          \<and> attributes (snd (set_token_usage_a en s request response))
              LLM_USAGE_COMPLETION_TOKENS = Some n"
    if h: "is_recording s" "py_getattr c0 ''text'' = Inr t" "count_tokens en t = Inr n"
      "writable en n" "count_prompt en request = Inr p" "py_add p n = Inr tot"
  proof -
    from cc h(2,3) have c: "count_completion en d = Inr n" by simp
    show ?thesis
      using set_token_usage_success(2,3) [OF assms(1) h(5) c h(6)]
        set_usage_attributes_completion [OF h(1,4)]
      by simp
  qed
  with cc show ?thesis by blast
qed

text \<open>
  The theorem at a response with two content items: the count is that of the first.
\<close>

theorem completion_count_reads_first_item_witness:
  "count_completion demo_env demo_two_items = Inr (VInt 4)
   \<and> attributes (fst (snd (set_token_usage demo_env demo_span demo_kwargs
        (VObj ''Message'' demo_two_items) [] None None demo_world)))
        LLM_USAGE_COMPLETION_TOKENS = Some (VInt 4)
   \<and> attributes (snd (set_token_usage_a demo_env demo_span demo_kwargs
        (VObj ''Message'' demo_two_items))) LLM_USAGE_COMPLETION_TOKENS = Some (VInt 4)"
proof -
  have h: "as_dict (VObj ''Message'' demo_two_items) = Inr demo_two_items"
    "\<not> truthy (dict_get demo_two_items ''completion'')"
    "dict_get demo_two_items ''content'' =
       VList (VObj ''ContentBlock'' [(''text'', VStr ''Why?''), (''type'', VStr ''text'')]
         # [VObj ''ContentBlock'' [(''text'', VStr ''Because it could not trace.''),
              (''type'', VStr ''text'')]])"
    by (simp_all add: demo_two_items_def dict_get_def)
  have g: "is_recording demo_span"
    "py_getattr (VObj ''ContentBlock'' [(''text'', VStr ''Why?''), (''type'', VStr ''text'')]) ''text''
       = Inr (VStr ''Why?'')"
    "count_tokens demo_env (VStr ''Why?'') = Inr (VInt 4)"
    "writable demo_env (VInt 4)"
    "count_prompt demo_env demo_kwargs = Inr (VInt 14)"
    "py_add (VInt 14) (VInt 4) = Inr (VInt 18)"
    by (simp_all add: demo_span_def demo_kwargs_def response_eval)
  show ?thesis
    using g completion_count_reads_first_item [where response = "VObj ''Message'' demo_two_items"
        and d = demo_two_items and en = demo_env and s = demo_span and t = "VStr ''Why?''"
        and n = "VInt 4" and request = demo_kwargs and p = "VInt 14" and tot = "VInt 18"
        and ma = "[]" and tc = None and cc = None and w = demo_world, OF h]
    by simp
qed

section \<open>Metrics of a call\<close>







section \<open>Suppression\<close>

lemma suppressed_wrap_is_the_call:
  assumes "suppress en"
  shows "fst (wrap en to_wrap wrapped instance args kwargs w) = uninstrumented wrapped args kwargs"
    and "spans (snd (wrap en to_wrap wrapped instance args kwargs w)) = spans w"
    and "instruments (snd (wrap en to_wrap wrapped instance args kwargs w)) = instruments w"
    and "points (snd (wrap en to_wrap wrapped instance args kwargs w)) = points w"
    and "trace (snd (wrap en to_wrap wrapped instance args kwargs w)) = trace w @ [Invoke args kwargs]"
  using assms by (auto simp: wrap_def invoke_def uninstrumented_def split: sum.splits)

lemma suppressed_chat_wrapper_is_the_call:
  assumes "suppress en"
  shows "fst (chat_wrapper en wrapped instance args kwargs w) = uninstrumented wrapped args kwargs"
    and "spans (snd (chat_wrapper en wrapped instance args kwargs w)) = spans w"
    and "instruments (snd (chat_wrapper en wrapped instance args kwargs w)) = instruments w"
    and "points (snd (chat_wrapper en wrapped instance args kwargs w)) = points w"
    and "trace (snd (chat_wrapper en wrapped instance args kwargs w)) = trace w @ [Invoke args kwargs]"
  using assms by (auto simp: chat_wrapper_def invoke_def uninstrumented_def split: sum.splits)

lemma suppressed_awrap_does_not_await:
  assumes "suppress en"
  shows "awrap en to_wrap wrapped instance args kwargs w = (Inr (Coroutine args kwargs), w)"
  using assms by (simp add: awrap_def)

text \<open>
  Claim C7. Under the suppression flag no span is started, no instrument or data point
  is created, and the call is a direct passthrough. That holds of \<open>_wrap\<close> and of
  \<open>chat_wrapper\<close> (the two lemmas above). On the suppressed asynchronous call below the
  world is unchanged as well, but what awaiting \<open>_awrap\<close> yields is the coroutine of the
  wrapped call, which has not run, where awaiting the uninstrumented method yields the
  response.
\<close>

theorem suppressed_async_call_returns_coroutine:
  "awrap (demo_env\<lparr>suppress := True\<rparr>) demo_to_wrap demo_returns demo_instance [] demo_kwargs demo_world
     = (Inr (Coroutine [] demo_kwargs), demo_world)
   \<and> trace demo_world = []
   \<and> uninstrumented demo_returns [] demo_kwargs = Inr (Value demo_response)"
  by (simp add: awrap_def demo_env_def demo_world_def uninstrumented_def demo_returns_def)

section \<open>The response model of the chat wrapper\<close>

lemma request_prompts_loop_keeps:
  "is_recording (snd (request_prompts_loop en s i ps)) = is_recording s
   \<and> (\<not> prefix ''llm.prompts.'' k \<longrightarrow> attributes (snd (request_prompts_loop en s i ps)) k = attributes s k)"
proof (induction ps arbitrary: s i)
  case Nil
  show ?case by simp
next
  case (Cons p ps)
  have "\<not> prefix ''llm.prompts.'' k \<Longrightarrow> k \<noteq> prompt_key i"
    using prompt_key_prefix by blast
  with Cons show ?case
    by (auto simp: span_set_attribute_other split: sum.splits)
qed

lemma response_generations_loop_keeps:
  "is_recording (snd (response_generations_loop s i gs)) = is_recording s
   \<and> (\<not> prefix ''llm.completions.'' k \<longrightarrow> attributes (snd (response_generations_loop s i gs)) k = attributes s k)"
proof (induction gs arbitrary: s i)
  case Nil
  show ?case by simp
next
  case (Cons g gs)
  have "\<not> prefix ''llm.completions.'' k \<Longrightarrow> k \<noteq> completion_key i"
    using completion_key_prefix by blast
  with Cons show ?case
    by (auto simp: span_set_attribute_other split: sum.splits)
qed

lemma handle_request_sets_model:
  assumes "is_recording s" and "request_model inst = Inr m"
  shows "attributes (snd (handle_request en s args kwargs inst)) LLM_RESPONSE_MODEL = Some m"
proof -
  define s3 where "s3 = span_set_attribute
      (span_set_attribute (span_set_attribute s LLM_REQUEST_TYPE (VStr REQUEST_TYPE_CHAT))
         LLM_REQUEST_MODEL m) LLM_RESPONSE_MODEL m"
  have a: "attributes s3 LLM_RESPONSE_MODEL = Some m"
    using assms(1) by (simp add: s3_def span_set_attribute_def is_recording_def)
  have b: "attributes (snd (request_prompts_loop en s3 0 ps)) LLM_RESPONSE_MODEL = Some m" for ps
    using request_prompts_loop_keeps [of en s3 0 ps LLM_RESPONSE_MODEL] a by simp
  show ?thesis
    using assms(2) a b
    by (simp add: handle_request_def Let_def s3_def [symmetric] split: sum.splits)
qed

lemma handle_request_needs_model:
  assumes "request_model inst = Inl e"
  shows "handle_request en s args kwargs inst = (Some e, s)"
  using assms by (simp add: handle_request_def)

lemma handle_response_keeps_model:
  "attributes (snd (handle_response en s rv)) LLM_RESPONSE_MODEL = attributes s LLM_RESPONSE_MODEL"
  using response_generations_loop_keeps [of s 0 _ LLM_RESPONSE_MODEL]
  by (simp add: handle_response_def split: sum.splits)



end
